theory Spec2Isabelle
  imports
    Main
    "HOL-Library.Word"
    "HOL-Library.Char_ord"
    "HOL-Library.List_Lexorder"
begin

section \<open>The reago client: constants\<close>

text \<open>
  The development follows \<^verbatim>\<open>reago.go\<close>, \<^verbatim>\<open>domains.go\<close> and
  \<^verbatim>\<open>rackspace_email_aliases.go\<close>. Go's \<^verbatim>\<open>int\<close> is a 64-bit two's complement
  integer on the platforms the client is built for: \<open>+\<close> wraps around and comparisons
  read the value through \<open>sint\<close>.
\<close>

type_synonym go_int = "64 word"

definition mediaType :: string where
  "mediaType = ''application/json''"

definition defaultPageSize :: go_int where
  "defaultPageSize = 50"

definition domainsBasePath :: string where
  "domainsBasePath = ''v1/domains''"

text \<open>\<^verbatim>\<open>fmt.Sprintf(rackspaceEmailAliasesBasePath, domain)\<close> with the format
  \<^verbatim>\<open>v1/domains/%s/rs/aliases\<close>.\<close>

definition rackspaceEmailAliasesBasePath :: "string \<Rightarrow> string" where
  "rackspaceEmailAliasesBasePath domain = ''v1/domains/'' @ domain @ ''/rs/aliases''"

section \<open>Data model\<close>

text \<open>\<^verbatim>\<open>PageOptions\<close>: the pagination options of a listing request.\<close>

record PageOptions =
  Offset :: go_int
  Size :: go_int

text \<open>
  \<^verbatim>\<open>domainsRoot\<close> and \<^verbatim>\<open>rackspaceEmailAliasesRoot\<close> have the same shape: three
  integers and the slice of items (\<^verbatim>\<open>Domains\<close>, \<^verbatim>\<open>RackspaceEmailAliases\<close>). One record
  stands for both; the item type is a parameter. A Go slice built from \<^verbatim>\<open>nil\<close> by
  \<^verbatim>\<open>append\<close> is a list, \<^verbatim>\<open>nil\<close> being the empty list.
\<close>

record 'a listRoot =
  rootOffset :: go_int
  rootSize :: go_int
  rootTotal :: go_int
  rootItems :: "'a list"

definition new_listRoot :: "'a listRoot" where
  "new_listRoot = \<lparr>rootOffset = 0, rootSize = 0, rootTotal = 0, rootItems = []\<rparr>"

text \<open>
  \<^verbatim>\<open>http.Header\<close>: a map from header names to the values added under them, in order.
  The client only uses names that are already in canonical form.
\<close>

type_synonym header = "(string \<times> string list) list"

definition Header_Add :: "string \<Rightarrow> string \<Rightarrow> header \<Rightarrow> header" where
  "Header_Add k v h =
     (case map_of h k of
        None \<Rightarrow> h @ [(k, [v])]
      | Some vs \<Rightarrow> map (\<lambda>(k', vs'). if k' = k then (k', vs' @ [v]) else (k', vs')) h)"

definition Header_Get :: "string \<Rightarrow> header \<Rightarrow> string" where
  "Header_Get k h = (case map_of h k of Some (v # _) \<Rightarrow> v | _ \<Rightarrow> [])"

text \<open>
  \<^verbatim>\<open>http.Request\<close>, with the fields the client reads or writes. \<open>URL\<close> holds the text
  that \<^verbatim>\<open>http.NewRequest\<close> parsed the request's URL from.
\<close>

record http_Request =
  Method :: string
  URL :: string
  Header :: header
  Body :: string

text \<open>
  A response body is a stream: \<open>content\<close> is what reading it to the end yields and
  \<open>read_error\<close> the error, if any, that the read ends with instead of end-of-file.
\<close>

record body_stream =
  content :: string
  read_error :: "string option"

text \<open>\<^verbatim>\<open>http.Response\<close>; \<open>Request\<close> is the pointer to the request that was sent.\<close>

record http_Response =
  StatusCode :: int
  RespBody :: body_stream
  Request :: "http_Request option"

definition zero_http_Response :: http_Response where
  "zero_http_Response =
     \<lparr>StatusCode = 0, RespBody = \<lparr>content = [], read_error = None\<rparr>, Request = None\<rparr>"

text \<open>\<^verbatim>\<open>Response\<close> wraps the \<^verbatim>\<open>http.Response\<close> of the transport.\<close>

record Response =
  Raw :: http_Response

definition newResponse :: "http_Response \<Rightarrow> Response" where
  "newResponse r = \<lparr>Raw = r\<rparr>"

text \<open>
  \<^verbatim>\<open>ErrorResponse\<close>. \<open>Response\<close> is a pointer in the source: \<open>None\<close> is \<^verbatim>\<open>nil\<close>, and
  \<open>Some r\<close> the response it points to, as it stands when the error is returned.
\<close>

record ErrorResponse =
  Response :: "http_Response option"
  Message :: string
  RequestID :: string

text \<open>
  The errors the client returns, by origin: its own \<^verbatim>\<open>ArgError\<close> and \<^verbatim>\<open>ErrorResponse\<close>,
  and the errors of \<^verbatim>\<open>net/url\<close>, \<^verbatim>\<open>net/http\<close>, the rate limiter's \<^verbatim>\<open>Wait\<close>, the
  \<^verbatim>\<open>io.Writer\<close> destination and \<^verbatim>\<open>encoding/json\<close>.
\<close>

datatype error =
    ArgError string string
  | APIError ErrorResponse
  | URLError string
  | RequestError string
  | WaitError string
  | TransportError string
  | WriteError string
  | JSONError string

definition NewArgError :: "string \<Rightarrow> string \<Rightarrow> error" where
  "NewArgError arg reason = ArgError arg reason"

section \<open>The environment: the standard library, the clock and the network\<close>

text \<open>JSON values as \<^verbatim>\<open>encoding/json\<close> reads them; a number keeps its literal text and
  an object its members in the order of the text.\<close>

datatype json =
    JNull
  | JBool bool
  | JNumber string
  | JString string
  | JArray "json list"
  | JObject "(string \<times> json) list"

text \<open>\<^verbatim>\<open>url.URL\<close>: the query is the field \<^verbatim>\<open>RawQuery\<close>, which \<^verbatim>\<open>addOptions\<close> assigns;
  \<open>Rest\<close> stands for all the other components.\<close>

record 'u url_URL =
  RawQuery :: string
  Rest :: 'u

text \<open>\<^verbatim>\<open>url.Values\<close>: a map from keys to lists of values, kept as an association list.\<close>

type_synonym url_Values = "(string \<times> string list) list"

text \<open>The local calendar reading of a \<^verbatim>\<open>time.Time\<close>.\<close>

record Time =
  Year :: int
  Month :: nat
  Day :: nat
  Hour :: nat
  Minute :: nat
  Second :: nat

text \<open>
  A \<^verbatim>\<open>rate.Limiter\<close> is shared and mutable; the model counts the tokens taken from it.
\<close>

record Limiter =
  taken :: nat

text \<open>
  What the client calls and does not define is a parameter: the functions of
  \<^verbatim>\<open>net/url\<close>, \<^verbatim>\<open>crypto/sha1\<close>, \<^verbatim>\<open>encoding/base64\<close> and \<^verbatim>\<open>encoding/json\<close>, the
  clock, the outcome of waiting on a limiter under a context, and the transport.
  \<open>'c\<close> is the type of contexts, \<open>'n\<close> the state of everything outside the client
  (clock, network, remote service) and \<open>'u\<close> the part of a URL besides its query.

  \<^item> \<open>json_parse\<close> is the syntax check and scan of \<^verbatim>\<open>json.Unmarshal\<close>: \<open>None\<close> for a
    text that is not one JSON value.
  \<^item> \<open>json_foldName\<close> is the case folding under which a member name matches a field.
  \<^item> \<open>json_into_http_Response ms r\<close> stores the members \<open>ms\<close> of a JSON object into
    the \<^verbatim>\<open>http.Response\<close> \<open>r\<close>: the new value, and whether a type error was met.
  \<^item> \<open>limiter_Wait_error ctx lim n\<close> is the error of \<^verbatim>\<open>lim.Wait(ctx)\<close>, if the context
    is done before a token is available.
  \<^item> \<open>client_Do ctx req n\<close> is one call of \<^verbatim>\<open>http.Client.Do\<close>.
  \<^item> \<open>DumpResponse_error r\<close> is the error of writing the dump of a response whose body
    was read to the end without error.
\<close>

record ('c, 'n, 'u) env =
  url_Parse :: "string \<Rightarrow> string + 'u url_URL"
  url_String :: "'u url_URL \<Rightarrow> string"
  url_ResolveReference :: "'u url_URL \<Rightarrow> 'u url_URL \<Rightarrow> 'u url_URL"
  url_ParseQuery :: "string \<Rightarrow> url_Values"
  sha1_Sum :: "string \<Rightarrow> string"
  base64_EncodeToString :: "string \<Rightarrow> string"
  time_Now :: "'n \<Rightarrow> Time"
  json_parse :: "string \<Rightarrow> json option"
  json_foldName :: "string \<Rightarrow> string"
  json_into_http_Response :: "(string \<times> json) list \<Rightarrow> http_Response \<Rightarrow> bool \<times> http_Response"
  limiter_Wait_error :: "'c \<Rightarrow> Limiter \<Rightarrow> 'n \<Rightarrow> string option"
  client_Do :: "'c \<Rightarrow> http_Request \<Rightarrow> 'n \<Rightarrow> (string + http_Response) \<times> 'n"
  DumpResponse_error :: "http_Response \<Rightarrow> string option"

text \<open>
  The mutable state a request touches: the two limiters of the \<^verbatim>\<open>Client\<close>, the
  requests handed to the transport so far (a log the model keeps), and the outside.
\<close>

record 'n world =
  getLimiter :: Limiter
  putPostDeleteLimiter :: Limiter
  sent :: "http_Request list"
  outside :: 'n

text \<open>The \<^verbatim>\<open>Client\<close>: its configuration. The limiters it points to are in the world.\<close>

record 'u Client =
  BaseURL :: "'u url_URL"
  UserAgent :: string
  userKey :: string
  secretKey :: string
  debugHTTP :: bool

section \<open>The error classifier\<close>

text \<open>
  \<^verbatim>\<open>json.Unmarshal(data, errorResponse)\<close>. The struct has three exported fields:
  \<^verbatim>\<open>Response\<close> (no tag, so its JSON name is the field name), \<^verbatim>\<open>Message\<close> (tag
  \<^verbatim>\<open>message\<close>) and \<^verbatim>\<open>RequestID\<close> (tag \<^verbatim>\<open>request_id\<close>). A member name selects the
  field it equals, or else the field it equals after case folding.
\<close>

datatype er_field = FResponse | FMessage | FRequestID

definition ErrorResponse_field :: "(string \<Rightarrow> string) \<Rightarrow> string \<Rightarrow> er_field option" where
  "ErrorResponse_field fold_name k =
     (if k = ''Response'' then Some FResponse
      else if k = ''message'' then Some FMessage
      else if k = ''request_id'' then Some FRequestID
      else if fold_name k = fold_name ''Response'' then Some FResponse
      else if fold_name k = fold_name ''message'' then Some FMessage
      else if fold_name k = fold_name ''request_id'' then Some FRequestID
      else None)"

text \<open>
  The decoder's view of the struct while it runs. \<open>ptr\<close> is the pointer field
  \<^verbatim>\<open>Response\<close>: \<^verbatim>\<open>nil\<close>, the response under classification, or a response the decoder
  allocated. \<open>checked\<close> is the response under classification, which the decoder
  writes through the pointer. \<open>saved\<close> records that a type error was met: the decoder
  goes on and reports it at the end.
\<close>

datatype resp_ptr = NilPtr | ToChecked | ToFresh http_Response

record unmarshal_state =
  saved :: bool
  ptr :: resp_ptr
  checked :: http_Response
  msg :: string
  rid :: string

definition store_string :: "json \<Rightarrow> string \<Rightarrow> bool \<times> string" where
  "store_string v old =
     (case v of JString s \<Rightarrow> (False, s) | JNull \<Rightarrow> (False, old) | _ \<Rightarrow> (True, old))"

definition store_Response ::
  "((string \<times> json) list \<Rightarrow> http_Response \<Rightarrow> bool \<times> http_Response) \<Rightarrow>
   json \<Rightarrow> unmarshal_state \<Rightarrow> unmarshal_state" where
  "store_Response into v st =
     (case v of
        JNull \<Rightarrow> st\<lparr>ptr := NilPtr\<rparr>
      | JObject ms \<Rightarrow>
          (case ptr st of
             ToChecked \<Rightarrow>
               (case into ms (checked st) of
                  (bad, r') \<Rightarrow> st\<lparr>saved := saved st \<or> bad, checked := r'\<rparr>)
           | NilPtr \<Rightarrow>
               (case into ms zero_http_Response of
                  (bad, r') \<Rightarrow> st\<lparr>saved := saved st \<or> bad, ptr := ToFresh r'\<rparr>)
           | ToFresh r \<Rightarrow>
               (case into ms r of
                  (bad, r') \<Rightarrow> st\<lparr>saved := saved st \<or> bad, ptr := ToFresh r'\<rparr>))
      | _ \<Rightarrow>
          st\<lparr>saved := True,
             ptr := (case ptr st of NilPtr \<Rightarrow> ToFresh zero_http_Response | p \<Rightarrow> p)\<rparr>)"

definition store_member ::
  "('c, 'n, 'u) env \<Rightarrow> string \<times> json \<Rightarrow> unmarshal_state \<Rightarrow> unmarshal_state" where
  "store_member e kv st =
     (case ErrorResponse_field (json_foldName e) (fst kv) of
        None \<Rightarrow> st
      | Some FMessage \<Rightarrow>
          (case store_string (snd kv) (msg st) of
             (bad, s) \<Rightarrow> st\<lparr>saved := saved st \<or> bad, msg := s\<rparr>)
      | Some FRequestID \<Rightarrow>
          (case store_string (snd kv) (rid st) of
             (bad, s) \<Rightarrow> st\<lparr>saved := saved st \<or> bad, rid := s\<rparr>)
      | Some FResponse \<Rightarrow> store_Response (json_into_http_Response e) (snd kv) st)"

text \<open>The result: whether \<^verbatim>\<open>Unmarshal\<close> returns an error, and the struct. A text that
  is not valid JSON is refused before anything is stored.\<close>

definition Unmarshal_ErrorResponse ::
  "('c, 'n, 'u) env \<Rightarrow> string \<Rightarrow> unmarshal_state \<Rightarrow> bool \<times> unmarshal_state" where
  "Unmarshal_ErrorResponse e data st =
     (case json_parse e data of
        None \<Rightarrow> (True, st)
      | Some (JObject ms) \<Rightarrow>
          (let st' = fold (store_member e) ms st in (saved st', st'))
      | Some JNull \<Rightarrow> (False, st)
      | Some _ \<Rightarrow> (True, st))"

definition deref :: "unmarshal_state \<Rightarrow> http_Response option" where
  "deref st = (case ptr st of NilPtr \<Rightarrow> None | ToChecked \<Rightarrow> Some (checked st) | ToFresh r \<Rightarrow> Some r)"

text \<open>
  \<^verbatim>\<open>CheckResponse\<close>: \<open>None\<close> is the \<^verbatim>\<open>nil\<close> error. The second component is the response
  \<open>r\<close> afterwards, since the decoder can write to it through the pointer. The read
  position of a body is not tracked.
\<close>

definition CheckResponse ::
  "('c, 'n, 'u) env \<Rightarrow> http_Response \<Rightarrow> ErrorResponse option \<times> http_Response" where
  "CheckResponse e r =
     (if 200 \<le> StatusCode r \<and> StatusCode r \<le> 299 then (None, r)
      else
        (let data = content (RespBody r);
             err = read_error (RespBody r);
             st0 = \<lparr>saved = False, ptr = ToChecked, checked = r, msg = [], rid = []\<rparr>;
             st = (if err = None \<and> 0 < length data
                   then (case Unmarshal_ErrorResponse e data st0 of
                           (True, st1) \<Rightarrow> st1\<lparr>msg := data\<rparr>
                         | (False, st1) \<Rightarrow> st1)
                   else st0)
         in (Some \<lparr>Response = deref st, Message = msg st, RequestID = rid st\<rparr>, checked st)))"

section \<open>Library functions with a fixed meaning\<close>

text \<open>Decimal digits of a natural number, most significant first.\<close>

definition digit_char :: "nat \<Rightarrow> char" where
  "digit_char d = ''0123456789'' ! (d mod 10)"

function decimal :: "nat \<Rightarrow> string" where
  "decimal n = (if n < 10 then [digit_char n] else decimal (n div 10) @ [digit_char (n mod 10)])"
  by pat_completeness auto
termination
  by (relation "measure id") auto

declare decimal.simps [simp del]

text \<open>\<^verbatim>\<open>strconv.Itoa\<close>, which \<^verbatim>\<open>fmt.Sprint\<close> applies to an \<^verbatim>\<open>int\<close>.\<close>

definition Itoa :: "int \<Rightarrow> string" where
  "Itoa i = (if i < 0 then CHR ''-'' # decimal (nat (- i)) else decimal (nat i))"

text \<open>\<^verbatim>\<open>appendInt\<close> of package \<^verbatim>\<open>time\<close>: the sign, then the digits padded with zeros to
  the width.\<close>

definition appendInt :: "int \<Rightarrow> nat \<Rightarrow> string" where
  "appendInt x width =
     (let ds = decimal (nat \<bar>x\<bar>)
      in (if x < 0 then ''-'' else []) @ replicate (width - length ds) (CHR ''0'') @ ds)"

text \<open>\<^verbatim>\<open>t.Format("20060102150405")\<close>: the layout is the long year, then month, day,
  hour, minute and second, each zero-padded to two digits.\<close>

definition Format_20060102150405 :: "Time \<Rightarrow> string" where
  "Format_20060102150405 t =
     appendInt (Year t) 4 @ appendInt (int (Month t)) 2 @ appendInt (int (Day t)) 2 @
     appendInt (int (Hour t)) 2 @ appendInt (int (Minute t)) 2 @ appendInt (int (Second t)) 2"

text \<open>\<^verbatim>\<open>url.QueryEscape\<close>: letters, digits and \<^verbatim>\<open>-_.~\<close> stay, a space becomes \<^verbatim>\<open>+\<close>, any
  other byte becomes \<^verbatim>\<open>%XX\<close>.\<close>

definition is_alnum :: "char \<Rightarrow> bool" where
  "is_alnum c =
     ((CHR ''a'' \<le> c \<and> c \<le> CHR ''z'') \<or> (CHR ''A'' \<le> c \<and> c \<le> CHR ''Z'') \<or>
      (CHR ''0'' \<le> c \<and> c \<le> CHR ''9''))"

definition hex_char :: "nat \<Rightarrow> char" where
  "hex_char d = ''0123456789ABCDEF'' ! (d mod 16)"

definition escape_byte :: "char \<Rightarrow> string" where
  "escape_byte c =
     (if is_alnum c \<or> c = CHR ''-'' \<or> c = CHR ''_'' \<or> c = CHR ''.'' \<or> c = CHR ''~'' then [c]
      else if c = CHR '' '' then ''+''
      else [CHR ''%'', hex_char (of_char c div 16), hex_char (of_char c mod 16)])"

definition QueryEscape :: "string \<Rightarrow> string" where
  "QueryEscape s = concat (map escape_byte s)"

text \<open>\<^verbatim>\<open>url.Values\<close>: assignment \<^verbatim>\<open>m[k] = v\<close>, \<^verbatim>\<open>Add\<close>, and \<^verbatim>\<open>Encode\<close>, which writes the
  pairs sorted by key and joined by \<^verbatim>\<open>&\<close>.\<close>

fun Values_set :: "string \<Rightarrow> string list \<Rightarrow> url_Values \<Rightarrow> url_Values" where
  "Values_set k v [] = [(k, v)]"
| "Values_set k v (p # m) = (if fst p = k then (k, v) # m else p # Values_set k v m)"

fun Values_Add :: "string \<Rightarrow> string \<Rightarrow> url_Values \<Rightarrow> url_Values" where
  "Values_Add k v [] = [(k, [v])]"
| "Values_Add k v (p # m) = (if fst p = k then (k, snd p @ [v]) # m else p # Values_Add k v m)"

fun join_amp :: "string list \<Rightarrow> string" where
  "join_amp [] = []"
| "join_amp [x] = x"
| "join_amp (x # y # ys) = x @ ''&'' @ join_amp (y # ys)"

definition Values_Encode :: "url_Values \<Rightarrow> string" where
  "Values_Encode v =
     join_amp (concat (map (\<lambda>p. map (\<lambda>x. QueryEscape (fst p) @ ''='' @ QueryEscape x) (snd p))
                           (sort_key fst v)))"

text \<open>
  \<^verbatim>\<open>query.Values\<close> of go-querystring on a \<^verbatim>\<open>PageOptions\<close>: both fields carry the tag
  option \<^verbatim>\<open>omitempty\<close>, so a field that is zero is left out.
\<close>

definition query_Values :: "PageOptions \<Rightarrow> url_Values" where
  "query_Values p =
     (if Offset p = 0 then [] else [(''offset'', [Itoa (sint (Offset p))])]) @
     (if Size p = 0 then [] else [(''size'', [Itoa (sint (Size p))])])"

text \<open>\<^verbatim>\<open>http.NewRequest\<close>: an empty method means \<^verbatim>\<open>GET\<close>; the method must be a token and
  the URL must parse.\<close>

definition is_token_char :: "char \<Rightarrow> bool" where
  "is_token_char c = (is_alnum c \<or> c \<in> set ''!#$%&*+-.^_`|~'' \<or> c = CHR 0x27)"

definition validMethod :: "string \<Rightarrow> bool" where
  "validMethod m = (m \<noteq> [] \<and> list_all is_token_char m)"

definition http_NewRequest ::
  "('c, 'n, 'u) env \<Rightarrow> string \<Rightarrow> string \<Rightarrow> string \<Rightarrow> error + http_Request" where
  "http_NewRequest e method url body =
     (let m = (if method = [] then ''GET'' else method)
      in if \<not> validMethod m then Inl (RequestError ''net/http: invalid method'')
         else (case url_Parse e url of
                 Inl x \<Rightarrow> Inl (URLError x)
               | Inr u \<Rightarrow> Inr \<lparr>Method = m, URL = url, Header = [], Body = body\<rparr>))"

section \<open>Building and signing a request\<close>

text \<open>\<^verbatim>\<open>addOptions\<close>, at the type the client uses it: \<open>None\<close> is the \<^verbatim>\<open>nil\<close> pointer. For a
  pointer to a struct \<^verbatim>\<open>query.Values\<close> returns no error.\<close>

definition addOptions ::
  "('c, 'n, 'u) env \<Rightarrow> string \<Rightarrow> PageOptions option \<Rightarrow> string \<times> error option" where
  "addOptions e s p =
     (case p of
        None \<Rightarrow> (s, None)
      | Some po \<Rightarrow>
          (case url_Parse e s of
             Inl x \<Rightarrow> (s, Some (URLError x))
           | Inr origURL \<Rightarrow>
               (let origValues = url_ParseQuery e (RawQuery origURL);
                    newValues = query_Values po;
                    merged = fold (\<lambda>kv. Values_set (fst kv) (snd kv)) newValues origValues
                in (url_String e (origURL\<lparr>RawQuery := Values_Encode merged\<rparr>), None))))"

text \<open>\<^verbatim>\<open>sign\<close>: the clock is read from the world.\<close>

definition sign ::
  "('c, 'n, 'u) env \<Rightarrow> 'u Client \<Rightarrow> 'n world \<Rightarrow> http_Request \<Rightarrow> http_Request" where
  "sign e c w req =
     (let ua = Header_Get ''User-Agent'' (Header req);
          ts = Format_20060102150405 (time_Now e (outside w));
          b64 = base64_EncodeToString e (sha1_Sum e (userKey c @ ua @ ts @ secretKey c));
          sig = userKey c @ '':'' @ ts @ '':'' @ b64
      in req\<lparr>Header := Header_Add ''X-Api-Signature'' sig (Header req)\<rparr>)"

text \<open>\<^verbatim>\<open>NewRequest\<close>: the body is a \<^verbatim>\<open>map[string]string\<close>, \<open>None\<close> being \<^verbatim>\<open>nil\<close>. The
  context argument is not used by the source.\<close>

definition NewRequest ::
  "('c, 'n, 'u) env \<Rightarrow> 'u Client \<Rightarrow> 'n world \<Rightarrow> 'c \<Rightarrow> string \<Rightarrow> string \<Rightarrow>
   (string \<times> string) list option \<Rightarrow> error + http_Request" where
  "NewRequest e c w ctx method urlStr body =
     (case url_Parse e urlStr of
        Inl x \<Rightarrow> Inl (URLError x)
      | Inr rel \<Rightarrow>
          (let u = url_ResolveReference e (BaseURL c) rel;
               data = (case body of
                         None \<Rightarrow> []
                       | Some m \<Rightarrow> fold (\<lambda>kv. Values_Add (fst kv) (snd kv)) m [])
           in (case http_NewRequest e method (url_String e u) (Values_Encode data) of
                 Inl x \<Rightarrow> Inl x
               | Inr req \<Rightarrow>
                   (let req1 =
                          (if method = ''POST''
                           then req\<lparr>Header := Header_Add ''Content-Type''
                                  ''application/x-www-form-urlencoded'' (Header req)\<rparr>
                           else req\<lparr>Header := Header_Add ''Content-Type'' mediaType (Header req)\<rparr>);
                        req2 = req1\<lparr>Header := Header_Add ''Accept'' mediaType (Header req1)\<rparr>;
                        req3 = req2\<lparr>Header := Header_Add ''User-Agent'' (UserAgent c) (Header req2)\<rparr>
                    in Inr (sign e c w req3)))))"

text \<open>All the values of a header (\<^verbatim>\<open>Header.Values\<close>); the value that \<^verbatim>\<open>sign\<close> computes from an
  identity, a secret, a user agent and a timestamp; and the calendar readings a clock
  gives in the years 0 to 9999.\<close>

definition Header_Values :: "string \<Rightarrow> header \<Rightarrow> string list" where
  "Header_Values k h = (case map_of h k of Some vs \<Rightarrow> vs | None \<Rightarrow> [])"

definition signature :: "('c, 'n, 'u) env \<Rightarrow> string \<Rightarrow> string \<Rightarrow> string \<Rightarrow> string \<Rightarrow> string" where
  "signature e identity secret ua ts =
     identity @ '':'' @ ts @ '':'' @ base64_EncodeToString e (sha1_Sum e (identity @ ua @ ts @ secret))"

definition calendar :: "Time \<Rightarrow> bool" where
  "calendar t =
     (0 \<le> Year t \<and> Year t \<le> 9999 \<and> 1 \<le> Month t \<and> Month t \<le> 12 \<and> 1 \<le> Day t \<and> Day t \<le> 31 \<and>
      Hour t \<le> 23 \<and> Minute t \<le> 59 \<and> Second t \<le> 59)"


section \<open>The dispatcher\<close>

text \<open>
  \<^verbatim>\<open>lim.Wait(ctx)\<close>: one token is taken when the wait succeeds, none when the context
  is done first.
\<close>

definition Wait ::
  "('c, 'n, 'u) env \<Rightarrow> 'c \<Rightarrow> Limiter \<Rightarrow> 'n \<Rightarrow> error option \<times> Limiter" where
  "Wait e ctx lim n =
     (case limiter_Wait_error e ctx lim n of
        Some x \<Rightarrow> (Some (WaitError x), lim)
      | None \<Rightarrow> (None, lim\<lparr>taken := Suc (taken lim)\<rparr>))"

text \<open>\<^verbatim>\<open>DoRequestWithClient\<close>: the one place that calls the transport.\<close>

definition DoRequestWithClient ::
  "('c, 'n, 'u) env \<Rightarrow> 'c \<Rightarrow> http_Request \<Rightarrow> 'n world \<Rightarrow> (error + http_Response) \<times> 'n world" where
  "DoRequestWithClient e ctx req w =
     (case client_Do e ctx req (outside w) of
        (r, n') \<Rightarrow>
          ((case r of Inl x \<Rightarrow> Inl (TransportError x) | Inr resp \<Rightarrow> Inr resp),
           w\<lparr>sent := sent w @ [req], outside := n'\<rparr>))"

text \<open>\<^verbatim>\<open>httputil.DumpResponse(resp, true)\<close> reads the body to the end and puts it back;
  it fails when that read fails or when the dump cannot be written.\<close>

definition DumpResponse :: "('c, 'n, 'u) env \<Rightarrow> http_Response \<Rightarrow> string option" where
  "DumpResponse e r =
     (case read_error (RespBody r) of Some x \<Rightarrow> Some x | None \<Rightarrow> DumpResponse_error e r)"

text \<open>
  The destination \<^verbatim>\<open>v interface{}\<close> of \<^verbatim>\<open>Do\<close>: \<^verbatim>\<open>nil\<close>, a value that is an
  \<^verbatim>\<open>io.Writer\<close>, or any other value. A writer keeps what was written to it, or refuses
  the write with an error.
\<close>

record Writer =
  written :: string
  write_error :: "string option"

datatype 'v dest = NoDest | WriterDest Writer | ValueDest 'v

definition io_Copy :: "Writer \<Rightarrow> string \<Rightarrow> error option \<times> Writer" where
  "io_Copy wr data =
     (case write_error wr of
        Some x \<Rightarrow> (Some (WriteError x), wr)
      | None \<Rightarrow> (None, wr\<lparr>written := written wr @ data\<rparr>))"

text \<open>
  The outcome of \<^verbatim>\<open>Do\<close>: \<^verbatim>\<open>log.Fatal\<close> ends the process, otherwise the function
  returns its pair, leaving the destination and the world as they then are.
\<close>

datatype ('v, 'n) do_result =
    Fatal string "'n world"
  | Returned "Response option" "error option" "'v dest" "'n world"

text \<open>
  \<^verbatim>\<open>Do\<close>. \<open>decode\<close> is \<^verbatim>\<open>json.NewDecoder(resp.Body).Decode(v)\<close> at the type of the
  destination: the error, if any, and the destination afterwards. The dumps only
  feed the debug output, which the model leaves out.
\<close>

definition Do ::
  "('c, 'n, 'u) env \<Rightarrow> 'u Client \<Rightarrow> 'c \<Rightarrow> http_Request \<Rightarrow>
   (string \<Rightarrow> 'v \<Rightarrow> string option \<times> 'v) \<Rightarrow> 'v dest \<Rightarrow> 'n world \<Rightarrow> ('v, 'n) do_result" where
  "Do e c ctx req decode v w =
     (case (if Method req = ''GET''
            then (case Wait e ctx (getLimiter w) (outside w) of
                    (x, l) \<Rightarrow> (x, w\<lparr>getLimiter := l\<rparr>))
            else (case Wait e ctx (putPostDeleteLimiter w) (outside w) of
                    (x, l) \<Rightarrow> (x, w\<lparr>putPostDeleteLimiter := l\<rparr>))) of
        (Some x, w1) \<Rightarrow> Returned None (Some x) v w1
      | (None, w1) \<Rightarrow>
          (case DoRequestWithClient e ctx req w1 of
             (Inl x, w2) \<Rightarrow> Returned None (Some x) v w2
           | (Inr resp, w2) \<Rightarrow>
               (case DumpResponse e resp of
                  Some x \<Rightarrow> Fatal x w2
                | None \<Rightarrow>
                    (case CheckResponse e resp of
                       (Some er, resp') \<Rightarrow>
                         Returned (Some (newResponse resp')) (Some (APIError er)) v w2
                     | (None, resp') \<Rightarrow>
                         (case v of
                            NoDest \<Rightarrow> Returned (Some (newResponse resp')) None v w2
                          | WriterDest wr \<Rightarrow>
                              (case io_Copy wr (content (RespBody resp')) of
                                 (Some x, wr') \<Rightarrow> Returned None (Some x) (WriterDest wr') w2
                               | (None, wr') \<Rightarrow>
                                   Returned (Some (newResponse resp')) None (WriterDest wr') w2)
                          | ValueDest y \<Rightarrow>
                              (case decode (content (RespBody resp')) y of
                                 (Some x, y') \<Rightarrow>
                                   Returned None (Some (JSONError x)) (ValueDest y') w2
                               | (None, y') \<Rightarrow>
                                   Returned (Some (newResponse resp')) None (ValueDest y') w2))))))"

text \<open>Projections of the outcome of \<^verbatim>\<open>Do\<close>, and the world after a request has passed its
  limiter and the transport has answered, leaving the outside in the state \<open>n'\<close>.\<close>

definition do_resp :: "('v, 'n) do_result \<Rightarrow> Response option" where
  "do_resp res = (case res of Fatal x w \<Rightarrow> None | Returned r er d w \<Rightarrow> r)"

definition do_err :: "('v, 'n) do_result \<Rightarrow> error option" where
  "do_err res = (case res of Fatal x w \<Rightarrow> None | Returned r er d w \<Rightarrow> er)"

definition do_dest :: "('v, 'n) do_result \<Rightarrow> 'v dest" where
  "do_dest res = (case res of Fatal x w \<Rightarrow> NoDest | Returned r er d w \<Rightarrow> d)"

definition do_world :: "('v, 'n) do_result \<Rightarrow> 'n world" where
  "do_world res = (case res of Fatal x w \<Rightarrow> w | Returned r er d w \<Rightarrow> w)"

definition after_dispatch :: "http_Request \<Rightarrow> 'n \<Rightarrow> 'n world \<Rightarrow> 'n world" where
  "after_dispatch req n' w =
     (if Method req = ''GET''
      then w\<lparr>getLimiter := (getLimiter w)\<lparr>taken := Suc (taken (getLimiter w))\<rparr>\<rparr>
      else w\<lparr>putPostDeleteLimiter :=
               (putPostDeleteLimiter w)\<lparr>taken := Suc (taken (putPostDeleteLimiter w))\<rparr>\<rparr>)
     \<lparr>sent := sent w @ [req], outside := n'\<rparr>"

section \<open>The listing operations\<close>

text \<open>
  The variables of \<^verbatim>\<open>Index\<close> that are declared before the loop: the accumulator, the
  response, the error and the options. A variable that the loop body declares anew
  with \<^verbatim>\<open>:=\<close> is local to one iteration and is bound by a \<open>case\<close> below; an
  assignment with \<^verbatim>\<open>=\<close> to one of the outer variables is a record update.
\<close>

record 'a index_vars =
  v_items :: "'a list"
  v_resp :: "Response option"
  v_err :: "error option"
  v_opt :: PageOptions

text \<open>What \<^verbatim>\<open>Index\<close> returns (items, response, error), with the options that \<^verbatim>\<open>opt\<close>
  then points to (\<open>None\<close> for \<^verbatim>\<open>nil\<close>) and the world; or the process has ended in
  \<^verbatim>\<open>log.Fatal\<close>.\<close>

datatype ('a, 'n) index_result =
    Exited string "'n world"
  | IndexReturn "'a list" "Response option" "error option" "PageOptions option" "'n world"

text \<open>One pass through a loop body ends in a \<^verbatim>\<open>return\<close>, in \<^verbatim>\<open>break\<close>, or at the end of
  the body.\<close>

datatype ('s, 'r) flow = Return 'r | Break 's | Continue 's

definition root_of :: "'a listRoot dest \<Rightarrow> 'a listRoot" where
  "root_of d = (case d of ValueDest r \<Rightarrow> r | _ \<Rightarrow> new_listRoot)"

text \<open>The body of the loop of \<^verbatim>\<open>DomainsServiceOp.Index\<close>. The first \<^verbatim>\<open>:=\<close> declares an
  \<^verbatim>\<open>err\<close> of the body; \<^verbatim>\<open>resp, err = s.client.Do(...)\<close> assigns the outer \<^verbatim>\<open>resp\<close>.\<close>

definition Domains_Index_body ::
  "('c, 'n, 'u) env \<Rightarrow> 'u Client \<Rightarrow> (string \<Rightarrow> 'a listRoot \<Rightarrow> string option \<times> 'a listRoot) \<Rightarrow> 'c \<Rightarrow>
   'a index_vars \<times> 'n world \<Rightarrow> ('a index_vars \<times> 'n world, ('a, 'n) index_result) flow" where
  "Domains_Index_body e c decode ctx s =
     (case s of (vs, w) \<Rightarrow>
       (case addOptions e domainsBasePath (Some (v_opt vs)) of
          (path, Some x) \<Rightarrow> Return (IndexReturn [] None (Some x) (Some (v_opt vs)) w)
        | (path, None) \<Rightarrow>
            (case NewRequest e c w ctx ''GET'' path None of
               Inl x \<Rightarrow> Return (IndexReturn [] None (Some x) (Some (v_opt vs)) w)
             | Inr req \<Rightarrow>
                 (case Do e c ctx req decode (ValueDest new_listRoot) w of
                    Fatal x w' \<Rightarrow> Return (Exited x w')
                  | Returned r er d w' \<Rightarrow>
                      (let vs1 = vs\<lparr>v_resp := r\<rparr>
                       in (case er of
                             Some x \<Rightarrow> Return (IndexReturn [] (v_resp vs1) (Some x) (Some (v_opt vs1)) w')
                           | None \<Rightarrow>
                               (let root = root_of d;
                                    vs2 = vs1\<lparr>v_items := v_items vs1 @ rootItems root\<rparr>
                                in if sint (rootTotal root) \<le> sint (rootSize root + rootOffset root)
                                   then Break (vs2, w')
                                   else Continue
                                     (vs2\<lparr>v_opt := (v_opt vs2)
                                        \<lparr>Offset := rootSize root + rootOffset root\<rparr>\<rparr>, w'))))))))"

partial_function (option) Domains_Index_loop ::
  "('c, 'n, 'u) env \<Rightarrow> 'u Client \<Rightarrow> (string \<Rightarrow> 'a listRoot \<Rightarrow> string option \<times> 'a listRoot) \<Rightarrow> 'c \<Rightarrow>
   'a index_vars \<times> 'n world \<Rightarrow> ('a, 'n) index_result option" where
  "Domains_Index_loop e c decode ctx s =
     (case Domains_Index_body e c decode ctx s of
        Return r \<Rightarrow> Some r
      | Break s' \<Rightarrow>
          Some (IndexReturn (v_items (fst s')) (v_resp (fst s')) (v_err (fst s'))
                  (Some (v_opt (fst s'))) (snd s'))
      | Continue s' \<Rightarrow> Domains_Index_loop e c decode ctx s')"

text \<open>\<^verbatim>\<open>DomainsServiceOp.Index\<close>; \<open>None\<close> is a run that never returns.\<close>

definition Domains_Index ::
  "('c, 'n, 'u) env \<Rightarrow> 'u Client \<Rightarrow> (string \<Rightarrow> 'a listRoot \<Rightarrow> string option \<times> 'a listRoot) \<Rightarrow> 'c \<Rightarrow>
   PageOptions option \<Rightarrow> 'n world \<Rightarrow> ('a, 'n) index_result option" where
  "Domains_Index e c decode ctx p w =
     Domains_Index_loop e c decode ctx
       (\<lparr>v_items = [], v_resp = None, v_err = None,
         v_opt = (case p of None \<Rightarrow> \<lparr>Offset = 0, Size = defaultPageSize\<rparr> | Some po \<Rightarrow> po)\<rparr>, w)"

text \<open>The body of the loop of \<^verbatim>\<open>RackspaceEmailAliasesServiceOp.Index\<close>.
  \<^verbatim>\<open>path, err = addOptions(path, opt)\<close> assigns the outer \<^verbatim>\<open>err\<close>;
  \<^verbatim>\<open>resp, err := s.client.Do(...)\<close> declares a \<^verbatim>\<open>resp\<close> of the body.\<close>

definition Aliases_Index_body ::
  "('c, 'n, 'u) env \<Rightarrow> 'u Client \<Rightarrow> (string \<Rightarrow> 'a listRoot \<Rightarrow> string option \<times> 'a listRoot) \<Rightarrow> 'c \<Rightarrow>
   string \<Rightarrow> 'a index_vars \<times> 'n world \<Rightarrow> ('a index_vars \<times> 'n world, ('a, 'n) index_result) flow" where
  "Aliases_Index_body e c decode ctx domain s =
     (case s of (vs, w) \<Rightarrow>
       (case addOptions e (rackspaceEmailAliasesBasePath domain) (Some (v_opt vs)) of
          (path, er0) \<Rightarrow>
            (let vs1 = vs\<lparr>v_err := er0\<rparr>
             in (case v_err vs1 of
                   Some x \<Rightarrow> Return (IndexReturn [] None (Some x) (Some (v_opt vs1)) w)
                 | None \<Rightarrow>
                     (case NewRequest e c w ctx ''GET'' path None of
                        Inl x \<Rightarrow> Return (IndexReturn [] None (Some x) (Some (v_opt vs1)) w)
                      | Inr req \<Rightarrow>
                          (case Do e c ctx req decode (ValueDest new_listRoot) w of
                             Fatal x w' \<Rightarrow> Return (Exited x w')
                           | Returned r er d w' \<Rightarrow>
                               (case er of
                                  Some x \<Rightarrow> Return (IndexReturn [] r (Some x) (Some (v_opt vs1)) w')
                                | None \<Rightarrow>
                                    (let root = root_of d;
                                         vs2 = vs1\<lparr>v_items := v_items vs1 @ rootItems root\<rparr>
                                     in if sint (rootTotal root) \<le> sint (rootSize root + rootOffset root)
                                        then Break (vs2, w')
                                        else Continue
                                          (vs2\<lparr>v_opt := (v_opt vs2)
                                             \<lparr>Offset := rootSize root + rootOffset root\<rparr>\<rparr>, w')))))))))"

partial_function (option) Aliases_Index_loop ::
  "('c, 'n, 'u) env \<Rightarrow> 'u Client \<Rightarrow> (string \<Rightarrow> 'a listRoot \<Rightarrow> string option \<times> 'a listRoot) \<Rightarrow> 'c \<Rightarrow>
   string \<Rightarrow> 'a index_vars \<times> 'n world \<Rightarrow> ('a, 'n) index_result option" where
  "Aliases_Index_loop e c decode ctx domain s =
     (case Aliases_Index_body e c decode ctx domain s of
        Return r \<Rightarrow> Some r
      | Break s' \<Rightarrow>
          Some (IndexReturn (v_items (fst s')) (v_resp (fst s')) (v_err (fst s'))
                  (Some (v_opt (fst s'))) (snd s'))
      | Continue s' \<Rightarrow> Aliases_Index_loop e c decode ctx domain s')"

text \<open>\<^verbatim>\<open>RackspaceEmailAliasesServiceOp.Index\<close>.\<close>

definition Aliases_Index ::
  "('c, 'n, 'u) env \<Rightarrow> 'u Client \<Rightarrow> (string \<Rightarrow> 'a listRoot \<Rightarrow> string option \<times> 'a listRoot) \<Rightarrow> 'c \<Rightarrow>
   PageOptions option \<Rightarrow> string \<Rightarrow> 'n world \<Rightarrow> ('a, 'n) index_result option" where
  "Aliases_Index e c decode ctx p domain w =
     (if length domain < 1
      then Some (IndexReturn [] None (Some (NewArgError ''domain'' ''it cannot be an empty string''))
                   p w)
      else Aliases_Index_loop e c decode ctx domain
             (\<lparr>v_items = [], v_resp = None, v_err = None,
               v_opt = (case p of None \<Rightarrow> \<lparr>Offset = 0, Size = defaultPageSize\<rparr> | Some po \<Rightarrow> po)\<rparr>, w))"

section \<open>The paginator contract\<close>

text \<open>
  The single-page fetch of one pass through a loop body: the calls of \<^verbatim>\<open>addOptions\<close>,
  \<^verbatim>\<open>NewRequest\<close> and \<^verbatim>\<open>Do\<close> for the path \<open>base\<close> under the options \<open>po\<close>. It ends
  the process, fails with an error (and the response, if \<^verbatim>\<open>Do\<close> returned one), or
  yields a page envelope with its response.
\<close>

datatype ('a, 'n) fetched =
    FetchExit string "'n world"
  | FetchError "Response option" error "'n world"
  | FetchPage "'a listRoot" "Response option" "'n world"

definition fetch_page ::
  "('c, 'n, 'u) env \<Rightarrow> 'u Client \<Rightarrow> (string \<Rightarrow> 'a listRoot \<Rightarrow> string option \<times> 'a listRoot) \<Rightarrow> 'c \<Rightarrow>
   string \<Rightarrow> PageOptions \<Rightarrow> 'n world \<Rightarrow> ('a, 'n) fetched" where
  "fetch_page e c decode ctx base po w =
     (case addOptions e base (Some po) of
        (path, Some x) \<Rightarrow> FetchError None x w
      | (path, None) \<Rightarrow>
          (case NewRequest e c w ctx ''GET'' path None of
             Inl x \<Rightarrow> FetchError None x w
           | Inr req \<Rightarrow>
               (case Do e c ctx req decode (ValueDest new_listRoot) w of
                  Fatal x w' \<Rightarrow> FetchExit x w'
                | Returned r (Some x) d w' \<Rightarrow> FetchError r x w'
                | Returned r None d w' \<Rightarrow> FetchPage (root_of d) r w')))"

text \<open>The words of the contract: a page is the last one when its total is at most its
  size plus its offset; otherwise the offset of the options becomes that sum.\<close>

definition last_page :: "'a listRoot \<Rightarrow> bool" where
  "last_page p = (sint (rootTotal p) \<le> sint (rootSize p + rootOffset p))"

definition next_options :: "PageOptions \<Rightarrow> 'a listRoot \<Rightarrow> PageOptions" where
  "next_options po p = po\<lparr>Offset := rootSize p + rootOffset p\<rparr>"

text \<open>
  \<open>pages_prefix fetch po w ps\<close>: fetching from the options \<open>po\<close> in the world \<open>w\<close>, each
  fetch made under the options and in the world its predecessor left, returns the
  pages \<open>ps\<close> in this order and none of them is the last page; the result is the
  options and the world for the fetch that follows.
\<close>

fun pages_prefix ::
  "(PageOptions \<Rightarrow> 'n world \<Rightarrow> ('a, 'n) fetched) \<Rightarrow> PageOptions \<Rightarrow> 'n world \<Rightarrow> 'a listRoot list \<Rightarrow>
   (PageOptions \<times> 'n world) option" where
  "pages_prefix fetch po w [] = Some (po, w)"
| "pages_prefix fetch po w (p # ps) =
     (case fetch po w of
        FetchPage root r w' \<Rightarrow>
          if root = p \<and> \<not> last_page p then pages_prefix fetch (next_options po p) w' ps else None
      | _ \<Rightarrow> None)"

text \<open>
  \<open>pages_run fetch po w ps\<close>: the fetches return exactly the pages \<open>ps\<close>, of which the
  last one, and only it, is a last page; the result is the options of the final
  fetch, its response and the world it left.
\<close>

fun pages_run ::
  "(PageOptions \<Rightarrow> 'n world \<Rightarrow> ('a, 'n) fetched) \<Rightarrow> PageOptions \<Rightarrow> 'n world \<Rightarrow> 'a listRoot list \<Rightarrow>
   (PageOptions \<times> Response option \<times> 'n world) option" where
  "pages_run fetch po w [] = None"
| "pages_run fetch po w (p # ps) =
     (case fetch po w of
        FetchPage root r w' \<Rightarrow>
          if root \<noteq> p then None
          else if last_page p then (if ps = [] then Some (po, r, w') else None)
          else pages_run fetch (next_options po p) w' ps
      | _ \<Rightarrow> None)"

text \<open>The options a listing starts from.\<close>

definition initial_options :: "PageOptions option \<Rightarrow> PageOptions" where
  "initial_options p = (case p of None \<Rightarrow> \<lparr>Offset = 0, Size = defaultPageSize\<rparr> | Some po \<Rightarrow> po)"

text \<open>Projections of the result of a listing, for stating examples.\<close>

definition ret_items :: "('a, 'n) index_result option \<Rightarrow> 'a list" where
  "ret_items res = (case res of Some (IndexReturn xs r er po w) \<Rightarrow> xs | _ \<Rightarrow> [])"

definition ret_resp :: "('a, 'n) index_result option \<Rightarrow> Response option" where
  "ret_resp res = (case res of Some (IndexReturn xs r er po w) \<Rightarrow> r | _ \<Rightarrow> None)"

definition ret_err :: "('a, 'n) index_result option \<Rightarrow> error option" where
  "ret_err res = (case res of Some (IndexReturn xs r er po w) \<Rightarrow> er | _ \<Rightarrow> None)"

definition ret_calls :: "('a, 'n) index_result option \<Rightarrow> http_Request list" where
  "ret_calls res = (case res of Some (IndexReturn xs r er po w) \<Rightarrow> sent w | _ \<Rightarrow> [])"

definition returns :: "('a, 'n) index_result option \<Rightarrow> bool" where
  "returns res = (case res of Some (IndexReturn xs r er po w) \<Rightarrow> True | _ \<Rightarrow> False)"

definition fetched_items :: "('a, 'n) fetched \<Rightarrow> 'a list" where
  "fetched_items f = (case f of FetchPage root r w \<Rightarrow> rootItems root | _ \<Rightarrow> [])"


section \<open>A reference environment\<close>

text \<open>
  A concrete environment on which the definitions above can be run: a scanner for
  JSON texts, URLs split at the question mark, a scripted transport and a fixed
  clock. The general theorems hold for every environment; this one serves the
  examples.
\<close>

subsection \<open>A JSON scanner\<close>

datatype token =
    TLBrace | TRBrace | TLBrack | TRBrack | TColon | TComma
  | TStr string | TNum string | TNull | TTrue | TFalse

definition is_space :: "char \<Rightarrow> bool" where
  "is_space c = (c = CHR '' '' \<or> c = CHR 0x09 \<or> c = CHR 0x0A \<or> c = CHR 0x0D)"

definition is_digit :: "char \<Rightarrow> bool" where
  "is_digit c = (CHR ''0'' \<le> c \<and> c \<le> CHR ''9'')"

definition punct :: "char \<Rightarrow> token option" where
  "punct c =
     (if c = CHR ''{'' then Some TLBrace else if c = CHR ''}'' then Some TRBrace
      else if c = CHR ''['' then Some TLBrack else if c = CHR '']'' then Some TRBrack
      else if c = CHR '':'' then Some TColon else if c = CHR '','' then Some TComma
      else None)"

definition word_char :: "char \<Rightarrow> bool" where
  "word_char c = (is_alnum c \<or> c = CHR ''+'' \<or> c = CHR ''-'' \<or> c = CHR ''.'')"

text \<open>The number grammar of JSON: an optional minus, an integer part without a
  leading zero, an optional fraction and an optional exponent.\<close>

definition valid_number :: "string \<Rightarrow> bool" where
  "valid_number s =
     (let s1 = (case s of [] \<Rightarrow> [] | c # r \<Rightarrow> if c = CHR ''-'' then r else s);
          ip = takeWhile is_digit s1;
          r1 = dropWhile is_digit s1;
          int_ok = (ip \<noteq> [] \<and> (hd ip \<noteq> CHR ''0'' \<or> length ip = 1));
          has_frac = (r1 \<noteq> [] \<and> hd r1 = CHR ''.'');
          fp = (if has_frac then takeWhile is_digit (tl r1) else []);
          r2 = (if has_frac then dropWhile is_digit (tl r1) else r1);
          frac_ok = (if has_frac then fp \<noteq> [] else True);
          exp_ok =
            (case r2 of
               [] \<Rightarrow> True
             | c # r \<Rightarrow>
                 (c = CHR ''e'' \<or> c = CHR ''E'') \<and>
                 (let ds = (case r of [] \<Rightarrow> [] | d # t \<Rightarrow> if d = CHR ''+'' \<or> d = CHR ''-'' then t else r)
                  in ds \<noteq> [] \<and> list_all is_digit ds))
      in int_ok \<and> frac_ok \<and> exp_ok)"

definition word_token :: "string \<Rightarrow> token option" where
  "word_token w =
     (if w = ''null'' then Some TNull else if w = ''true'' then Some TTrue
      else if w = ''false'' then Some TFalse
      else if valid_number w then Some (TNum w) else None)"

text \<open>The escapes of a JSON string, but for \<^verbatim>\<open>\u\<close>, which this scanner does not read.\<close>

definition unescape :: "char \<Rightarrow> char option" where
  "unescape c =
     (if c = CHR 0x22 \<or> c = CHR 0x5C \<or> c = CHR ''/'' then Some c
      else if c = CHR ''b'' then Some (CHR 0x08) else if c = CHR ''f'' then Some (CHR 0x0C)
      else if c = CHR ''n'' then Some (CHR 0x0A) else if c = CHR ''r'' then Some (CHR 0x0D)
      else if c = CHR ''t'' then Some (CHR 0x09) else None)"

datatype lexmode = LxStart | LxString string | LxEscape string | LxWord string

fun lex :: "lexmode \<Rightarrow> string \<Rightarrow> token list option" where
  "lex LxStart [] = Some []"
| "lex (LxWord w) [] = map_option (\<lambda>t. [t]) (word_token (rev w))"
| "lex (LxString a) [] = None"
| "lex (LxEscape a) [] = None"
| "lex LxStart (c # cs) =
     (if is_space c then lex LxStart cs
      else if c = CHR 0x22 then lex (LxString []) cs
      else (case punct c of
              Some t \<Rightarrow> map_option (Cons t) (lex LxStart cs)
            | None \<Rightarrow> if word_char c then lex (LxWord [c]) cs else None))"
| "lex (LxWord w) (c # cs) =
     (if word_char c then lex (LxWord (c # w)) cs
      else (case word_token (rev w) of
              None \<Rightarrow> None
            | Some t \<Rightarrow>
                (if is_space c then map_option (Cons t) (lex LxStart cs)
                 else (case punct c of
                         Some p \<Rightarrow> map_option (\<lambda>ts. t # p # ts) (lex LxStart cs)
                       | None \<Rightarrow> None))))"
| "lex (LxString a) (c # cs) =
     (if c = CHR 0x22 then map_option (Cons (TStr (rev a))) (lex LxStart cs)
      else if c = CHR 0x5C then lex (LxEscape a) cs
      else if (of_char c :: nat) < 32 then None
      else lex (LxString (c # a)) cs)"
| "lex (LxEscape a) (c # cs) =
     (case unescape c of None \<Rightarrow> None | Some d \<Rightarrow> lex (LxString (d # a)) cs)"

text \<open>The parser keeps a stack of the arrays and objects that are open; an object
  frame holds the member name that awaits its value.\<close>

datatype frame = InArray "json list" | InObject "(string \<times> json) list" string

datatype pstate = PValue | PFirst | PKeyFirst | PKey | PColon | PNext | PDone json

fun reduce :: "json \<Rightarrow> frame list \<Rightarrow> pstate \<times> frame list" where
  "reduce v [] = (PDone v, [])"
| "reduce v (InArray es # fs) = (PNext, InArray (v # es) # fs)"
| "reduce v (InObject ms k # fs) = (PNext, InObject ((k, v) # ms) [] # fs)"

fun close_frame :: "frame list \<Rightarrow> (pstate \<times> frame list) option" where
  "close_frame [] = None"
| "close_frame (InArray es # fs) = Some (reduce (JArray (rev es)) fs)"
| "close_frame (InObject ms k # fs) = Some (reduce (JObject (rev ms)) fs)"

fun start_value :: "token \<Rightarrow> frame list \<Rightarrow> (pstate \<times> frame list) option" where
  "start_value TLBrace fs = Some (PKeyFirst, InObject [] [] # fs)"
| "start_value TLBrack fs = Some (PFirst, InArray [] # fs)"
| "start_value (TStr x) fs = Some (reduce (JString x) fs)"
| "start_value (TNum x) fs = Some (reduce (JNumber x) fs)"
| "start_value TNull fs = Some (reduce JNull fs)"
| "start_value TTrue fs = Some (reduce (JBool True) fs)"
| "start_value TFalse fs = Some (reduce (JBool False) fs)"
| "start_value _ fs = None"

fun member_key :: "token \<Rightarrow> frame list \<Rightarrow> (pstate \<times> frame list) option" where
  "member_key (TStr x) (InObject ms k # fs) = Some (PColon, InObject ms x # fs)"
| "member_key _ _ = None"

fun pstep :: "pstate \<Rightarrow> frame list \<Rightarrow> token \<Rightarrow> (pstate \<times> frame list) option" where
  "pstep PValue fs t = start_value t fs"
| "pstep PFirst fs t = (if t = TRBrack then close_frame fs else start_value t fs)"
| "pstep PKeyFirst fs t = (if t = TRBrace then close_frame fs else member_key t fs)"
| "pstep PKey fs t = member_key t fs"
| "pstep PColon fs t = (if t = TColon then Some (PValue, fs) else None)"
| "pstep PNext [] t = None"
| "pstep PNext (InArray es # fs) t =
     (if t = TComma then Some (PValue, InArray es # fs)
      else if t = TRBrack then close_frame (InArray es # fs) else None)"
| "pstep PNext (InObject ms k # fs) t =
     (if t = TComma then Some (PKey, InObject ms k # fs)
      else if t = TRBrace then close_frame (InObject ms k # fs) else None)"
| "pstep (PDone v) fs t = None"

fun parse_tokens :: "pstate \<Rightarrow> frame list \<Rightarrow> token list \<Rightarrow> json option" where
  "parse_tokens st fs [] = (case st of PDone v \<Rightarrow> Some v | _ \<Rightarrow> None)"
| "parse_tokens st fs (t # ts) =
     (case pstep st fs t of None \<Rightarrow> None | Some (st', fs') \<Rightarrow> parse_tokens st' fs' ts)"

definition ref_json_parse :: "string \<Rightarrow> json option" where
  "ref_json_parse s = (case lex LxStart s of None \<Rightarrow> None | Some ts \<Rightarrow> parse_tokens PValue [] ts)"

text \<open>Case folding on ASCII letters.\<close>

definition ref_foldName :: "string \<Rightarrow> string" where
  "ref_foldName s =
     map (\<lambda>c. case map_of (zip ''abcdefghijklmnopqrstuvwxyz'' ''ABCDEFGHIJKLMNOPQRSTUVWXYZ'') c of
                 Some u \<Rightarrow> u
               | None \<Rightarrow> c) s"

text \<open>Reading a JSON number as a Go \<^verbatim>\<open>int\<close>: decimal digits with an optional minus,
  within 64 bits.\<close>

definition digits_value :: "string \<Rightarrow> nat" where
  "digits_value ds = foldl (\<lambda>n c. 10 * n + (of_char c - 48)) 0 ds"

definition int_of_literal :: "string \<Rightarrow> int option" where
  "int_of_literal s =
     (let neg = (s \<noteq> [] \<and> hd s = CHR ''-'');
          ds = (if neg then tl s else s);
          n = int (digits_value ds);
          i = (if neg then - n else n)
      in if ds \<noteq> [] \<and> list_all is_digit ds \<and> - (2 ^ 63) \<le> i \<and> i < 2 ^ 63 then Some i else None)"

text \<open>The member \<^verbatim>\<open>StatusCode\<close> of an object stored into an \<^verbatim>\<open>http.Response\<close>; the other
  members do not concern the fields of the model and are passed over.\<close>

definition ref_into_http_Response ::
  "(string \<times> json) list \<Rightarrow> http_Response \<Rightarrow> bool \<times> http_Response" where
  "ref_into_http_Response ms r =
     fold (\<lambda>kv br.
             if ref_foldName (fst kv) = ''STATUSCODE''
             then (case snd kv of
                     JNumber x \<Rightarrow>
                       (case int_of_literal x of
                          Some i \<Rightarrow> (fst br, (snd br)\<lparr>StatusCode := i\<rparr>)
                        | None \<Rightarrow> (True, snd br))
                   | JNull \<Rightarrow> br
                   | _ \<Rightarrow> (True, snd br))
             else br) ms (False, r)"

subsection \<open>URLs, clock, limiter and transport\<close>

text \<open>A URL is split at its first question mark; a control character is refused, as
  \<^verbatim>\<open>url.Parse\<close> does. References are resolved against a base that ends in a slash.\<close>

definition ref_url_Parse :: "string \<Rightarrow> string + string url_URL" where
  "ref_url_Parse s =
     (if list_ex (\<lambda>c. (of_char c :: nat) < 32 \<or> c = CHR 0x7F) s
      then Inl ''net/url: invalid control character in URL''
      else Inr \<lparr>RawQuery = drop 1 (dropWhile (\<lambda>c. c \<noteq> CHR ''?'') s),
                Rest = takeWhile (\<lambda>c. c \<noteq> CHR ''?'') s\<rparr>)"

definition ref_url_String :: "string url_URL \<Rightarrow> string" where
  "ref_url_String u = Rest u @ (if RawQuery u = [] then [] else ''?'' @ RawQuery u)"

definition ref_url_ResolveReference :: "string url_URL \<Rightarrow> string url_URL \<Rightarrow> string url_URL" where
  "ref_url_ResolveReference base r = \<lparr>RawQuery = RawQuery r, Rest = Rest base @ Rest r\<rparr>"

fun split_on :: "char \<Rightarrow> string \<Rightarrow> string list" where
  "split_on d [] = [[]]"
| "split_on d (c # cs) =
     (if c = d then [] # split_on d cs
      else (case split_on d cs of [] \<Rightarrow> [[c]] | x # xs \<Rightarrow> (c # x) # xs))"

text \<open>Queries of plain keys and values: no escapes are undone.\<close>

definition ref_url_ParseQuery :: "string \<Rightarrow> url_Values" where
  "ref_url_ParseQuery q =
     fold (\<lambda>kv m. if kv = [] then m
                   else Values_Add (takeWhile (\<lambda>c. c \<noteq> CHR ''='') kv)
                          (drop 1 (dropWhile (\<lambda>c. c \<noteq> CHR ''='') kv)) m)
          (split_on (CHR ''&'') q) []"

text \<open>The outside: a clock that stands still and the replies the transport will
  give, in order. A context is the error it ends a wait with, if it is done.\<close>

record ref_outside =
  clock :: Time
  replies :: "(string + http_Response) list"

definition ref_client_Do ::
  "string option \<Rightarrow> http_Request \<Rightarrow> ref_outside \<Rightarrow> (string + http_Response) \<times> ref_outside" where
  "ref_client_Do ctx req n =
     (case replies n of
        [] \<Rightarrow> (Inl ''EOF'', n)
      | r # rs \<Rightarrow>
          ((case r of Inl x \<Rightarrow> Inl x | Inr resp \<Rightarrow> Inr (resp\<lparr>Request := Some req\<rparr>)),
           n\<lparr>replies := rs\<rparr>))"

text \<open>The hash and the encoding are not computed: each marks its argument.\<close>

definition ref_env :: "(string option, ref_outside, string) env" where
  "ref_env =
     \<lparr>url_Parse = ref_url_Parse,
      url_String = ref_url_String,
      url_ResolveReference = ref_url_ResolveReference,
      url_ParseQuery = ref_url_ParseQuery,
      sha1_Sum = (\<lambda>s. ''sha1('' @ s @ '')''),
      base64_EncodeToString = (\<lambda>s. ''base64('' @ s @ '')''),
      time_Now = clock,
      json_parse = ref_json_parse,
      json_foldName = ref_foldName,
      json_into_http_Response = ref_into_http_Response,
      limiter_Wait_error = (\<lambda>ctx lim n. ctx),
      client_Do = ref_client_Do,
      DumpResponse_error = (\<lambda>r. None)\<rparr>"

text \<open>A decoder for list envelopes: the integers \<^verbatim>\<open>offset\<close>, \<^verbatim>\<open>size\<close> and \<^verbatim>\<open>total\<close>,
  and under \<open>key\<close> the array of items, of each of which it keeps the name.\<close>

definition name_of :: "json \<Rightarrow> string" where
  "name_of j =
     (case j of
        JObject ms \<Rightarrow> (case map_of ms ''name'' of Some (JString x) \<Rightarrow> x | _ \<Rightarrow> [])
      | _ \<Rightarrow> [])"

definition store_go_int :: "json \<Rightarrow> go_int \<Rightarrow> bool \<times> go_int" where
  "store_go_int v old =
     (case v of
        JNumber x \<Rightarrow> (case int_of_literal x of Some i \<Rightarrow> (False, word_of_int i) | None \<Rightarrow> (True, old))
      | JNull \<Rightarrow> (False, old)
      | _ \<Rightarrow> (True, old))"

definition store_root ::
  "string \<Rightarrow> string \<times> json \<Rightarrow> bool \<times> string listRoot \<Rightarrow> bool \<times> string listRoot" where
  "store_root key kv br =
     (let f = ref_foldName (fst kv); b = fst br; r = snd br
      in if f = ''OFFSET'' then
           (case store_go_int (snd kv) (rootOffset r) of (x, i) \<Rightarrow> (b \<or> x, r\<lparr>rootOffset := i\<rparr>))
         else if f = ''SIZE'' then
           (case store_go_int (snd kv) (rootSize r) of (x, i) \<Rightarrow> (b \<or> x, r\<lparr>rootSize := i\<rparr>))
         else if f = ''TOTAL'' then
           (case store_go_int (snd kv) (rootTotal r) of (x, i) \<Rightarrow> (b \<or> x, r\<lparr>rootTotal := i\<rparr>))
         else if f = ref_foldName key then
           (case snd kv of
              JArray js \<Rightarrow> (b, r\<lparr>rootItems := map name_of js\<rparr>)
            | JNull \<Rightarrow> (b, r\<lparr>rootItems := []\<rparr>)
            | _ \<Rightarrow> (True, r))
         else br)"

definition ref_Decode :: "string \<Rightarrow> string \<Rightarrow> string listRoot \<Rightarrow> string option \<times> string listRoot" where
  "ref_Decode key body root =
     (case ref_json_parse body of
        None \<Rightarrow> (Some ''invalid character'', root)
      | Some (JObject ms) \<Rightarrow>
          (case fold (store_root key) ms (False, root) of
             (bad, r) \<Rightarrow> (if bad then Some ''json: cannot unmarshal'' else None, r))
      | Some JNull \<Rightarrow> (None, root)
      | Some _ \<Rightarrow> (Some ''json: cannot unmarshal'', root))"

definition ref_Client :: "string Client" where
  "ref_Client =
     \<lparr>BaseURL = \<lparr>RawQuery = [], Rest = ''https://api.emailsrvr.com/''\<rparr>,
      UserAgent = ''reago/1.0'', userKey = ''key'', secretKey = ''secret'', debugHTTP = False\<rparr>"

definition ref_time :: Time where
  "ref_time = \<lparr>Year = 2019, Month = 3, Day = 9, Hour = 8, Minute = 7, Second = 6\<rparr>"

definition ref_world :: "(string + http_Response) list \<Rightarrow> ref_outside world" where
  "ref_world rs =
     \<lparr>getLimiter = \<lparr>taken = 0\<rparr>, putPostDeleteLimiter = \<lparr>taken = 0\<rparr>, sent = [],
      outside = \<lparr>clock = ref_time, replies = rs\<rparr>\<rparr>"

definition reply :: "int \<Rightarrow> string \<Rightarrow> string + http_Response" where
  "reply code text =
     Inr \<lparr>StatusCode = code, RespBody = \<lparr>content = text, read_error = None\<rparr>, Request = None\<rparr>"

text \<open>The request that \<^verbatim>\<open>NewRequest\<close> builds for a \<^verbatim>\<open>GET\<close> of \<open>url\<close> in this environment,
  the response the transport makes of a scripted reply, and the world after one
  \<^verbatim>\<open>GET\<close> was answered.\<close>

definition ref_GET :: "string \<Rightarrow> http_Request" where
  "ref_GET url =
     \<lparr>Method = ''GET'', URL = url,
      Header = [(''Content-Type'', [''application/json'']), (''Accept'', [''application/json'']),
                (''User-Agent'', [''reago/1.0'']),
                (''X-Api-Signature'',
                 [''key:20190309080706:base64(sha1(keyreago/1.020190309080706secret))''])],
      Body = []\<rparr>"

definition ref_response :: "int \<Rightarrow> string \<Rightarrow> http_Request \<Rightarrow> http_Response" where
  "ref_response code text req =
     \<lparr>StatusCode = code, RespBody = \<lparr>content = text, read_error = None\<rparr>, Request = Some req\<rparr>"

definition ref_served :: "http_Request \<Rightarrow> ref_outside world \<Rightarrow> ref_outside world" where
  "ref_served req w =
     w\<lparr>getLimiter := \<lparr>taken = Suc (taken (getLimiter w))\<rparr>, sent := sent w @ [req],
       outside := (outside w)\<lparr>replies := tl (replies (outside w))\<rparr>\<rparr>"

subsection \<open>The services of the repository's tests\<close>

definition domains_page1 :: string where
  \<open>domains_page1 = ''{"offset": 0, "size": 1, "total": 2, "domains": [{"name":"foo.com"}]}''\<close>

definition domains_page2 :: string where
  \<open>domains_page2 = ''{"offset": 1, "size": 1, "total": 2, "domains": [{"name":"bar.com"}]}''\<close>

definition domains_single :: string where
  \<open>domains_single = ''{"domains": [{"name":"foo.com"},{"name":"bar.com"}]}''\<close>

definition aliases_page1 :: string where
  \<open>aliases_page1 = ''{"offset": 0, "size": 1, "total": 2, "aliases": [{"name":"foo"}]}''\<close>

definition aliases_page2 :: string where
  \<open>aliases_page2 = ''{"offset": 1, "size": 1, "total": 2, "aliases": [{"name":"bar"}]}''\<close>

definition page_of :: "int \<Rightarrow> int \<Rightarrow> int \<Rightarrow> 'a list \<Rightarrow> 'a listRoot" where
  "page_of off sz tot xs =
     \<lparr>rootOffset = word_of_int off, rootSize = word_of_int sz, rootTotal = word_of_int tot,
      rootItems = xs\<rparr>"

text \<open>The listing calls of the repository's tests, run against the scripted service.\<close>

definition TestDomains_Index :: "(string, ref_outside) index_result option" where
  "TestDomains_Index =
     Domains_Index ref_env ref_Client (ref_Decode ''domains'') None None
       (ref_world [reply 200 domains_single])"

definition TestDomains_Index_MultiplePages :: "(string, ref_outside) index_result option" where
  "TestDomains_Index_MultiplePages =
     Domains_Index ref_env ref_Client (ref_Decode ''domains'') None (Some \<lparr>Offset = 0, Size = 1\<rparr>)
       (ref_world [reply 200 domains_page1, reply 200 domains_page2])"

definition TestRackspaceEmailAliases_Index_MultiplePages ::
  "(string, ref_outside) index_result option" where
  "TestRackspaceEmailAliases_Index_MultiplePages =
     Aliases_Index ref_env ref_Client (ref_Decode ''aliases'') None (Some \<lparr>Offset = 0, Size = 1\<rparr>)
       ''domain.com'' (ref_world [reply 200 aliases_page1, reply 200 aliases_page2])"

text \<open>The two-page services again, the second page answered with status 500 and an empty
  body; and the error the client makes of that answer.\<close>

definition TestDomains_Index_SecondPageFails :: "(string, ref_outside) index_result option" where
  "TestDomains_Index_SecondPageFails =
     Domains_Index ref_env ref_Client (ref_Decode ''domains'') None (Some \<lparr>Offset = 0, Size = 1\<rparr>)
       (ref_world [reply 200 domains_page1, reply 500 []])"

definition TestAliases_Index_SecondPageFails :: "(string, ref_outside) index_result option" where
  "TestAliases_Index_SecondPageFails =
     Aliases_Index ref_env ref_Client (ref_Decode ''aliases'') None (Some \<lparr>Offset = 0, Size = 1\<rparr>)
       ''domain.com'' (ref_world [reply 200 aliases_page1, reply 500 []])"

definition internal_server_error :: "string \<Rightarrow> error" where
  "internal_server_error url =
     APIError \<lparr>Response = Some (ref_response 500 [] (ref_GET url)), Message = [], RequestID = []\<rparr>"

text \<open>One call of \<^verbatim>\<open>Do\<close> under a context, with a request of the given method, against a
  service that answers once.\<close>

definition ref_call ::
  "string option \<Rightarrow> string \<Rightarrow> string listRoot dest \<Rightarrow> int \<Rightarrow> string \<Rightarrow>
   (string listRoot, ref_outside) do_result" where
  "ref_call ctx method v code text =
     Do ref_env ref_Client ctx ((ref_GET ''https://api.emailsrvr.com/v1/domains'')\<lparr>Method := method\<rparr>)
       (ref_Decode ''domains'') v (ref_world [reply code text])"


text \<open>Two error responses: one whose body is an object with the member \<^verbatim>\<open>Response\<close>, and
  the \<^verbatim>\<open>404\<close> with the error envelope.\<close>

definition server_error_Response_null :: http_Response where
  \<open>server_error_Response_null =
     \<lparr>StatusCode = 500, RespBody = \<lparr>content = ''{"Response":null}'', read_error = None\<rparr>,
      Request = Some (ref_GET ''https://api.emailsrvr.com/v1/domains'')\<rparr>\<close>

definition not_found :: http_Response where
  \<open>not_found =
     \<lparr>StatusCode = 404,
      RespBody = \<lparr>content = ''{"message":"not found","request_id":"abc"}'', read_error = None\<rparr>,
      Request = Some (ref_GET ''https://api.emailsrvr.com/v1/domains/foo.com'')\<rparr>\<close>

section \<open>The loops in terms of the single-page fetch\<close>

lemma Domains_body_fetch:
  "Domains_Index_body e c decode ctx (vs, w) =
     (case fetch_page e c decode ctx domainsBasePath (v_opt vs) w of
        FetchExit x w' \<Rightarrow> Return (Exited x w')
      | FetchError r x w' \<Rightarrow> Return (IndexReturn [] r (Some x) (Some (v_opt vs)) w')
      | FetchPage root r w' \<Rightarrow>
          if last_page root
          then Break (vs\<lparr>v_resp := r, v_items := v_items vs @ rootItems root\<rparr>, w')
          else Continue (vs\<lparr>v_resp := r, v_items := v_items vs @ rootItems root,
                            v_opt := next_options (v_opt vs) root\<rparr>, w'))"
  by (simp add: Domains_Index_body_def fetch_page_def last_page_def next_options_def Let_def
      split: prod.splits option.splits sum.splits do_result.splits)

lemma Aliases_body_fetch:
  "Aliases_Index_body e c decode ctx domain (vs, w) =
     (case fetch_page e c decode ctx (rackspaceEmailAliasesBasePath domain) (v_opt vs) w of
        FetchExit x w' \<Rightarrow> Return (Exited x w')
      | FetchError r x w' \<Rightarrow> Return (IndexReturn [] r (Some x) (Some (v_opt vs)) w')
      | FetchPage root r w' \<Rightarrow>
          if last_page root
          then Break (vs\<lparr>v_err := None, v_items := v_items vs @ rootItems root\<rparr>, w')
          else Continue (vs\<lparr>v_err := None, v_items := v_items vs @ rootItems root,
                            v_opt := next_options (v_opt vs) root\<rparr>, w'))"
  by (simp add: Aliases_Index_body_def fetch_page_def last_page_def next_options_def Let_def
      split: prod.splits option.splits sum.splits do_result.splits)

text \<open>A call of \<^verbatim>\<open>Do\<close> that returns without error has called the transport once and
  returns a response.\<close>

lemma Do_success:
  "Do e c ctx req decode v w = Returned r None d w' \<Longrightarrow>
     (\<exists>resp. r = Some (newResponse resp)) \<and> sent w' = sent w @ [req]"
  by (auto simp: Do_def Wait_def DoRequestWithClient_def
      split: if_splits prod.splits option.splits sum.splits dest.splits)

lemma fetch_page_success:
  "fetch_page e c decode ctx base po w = FetchPage root r w' \<Longrightarrow>
     r \<noteq> None \<and> length (sent w') = Suc (length (sent w))"
  by (auto simp: fetch_page_def split: prod.splits option.splits sum.splits do_result.splits
      dest!: Do_success)

lemma Domains_loop_run:
  "pages_run (fetch_page e c decode ctx domainsBasePath) (v_opt vs) w ps = Some (po', r, w') \<Longrightarrow>
   Domains_Index_loop e c decode ctx (vs, w) =
     Some (IndexReturn (v_items vs @ concat (map rootItems ps)) r (v_err vs) (Some po') w')"
proof (induction ps arbitrary: vs w)
  case Nil
  then show ?case by simp
next
  case (Cons p ps)
  show ?case
  proof (cases "fetch_page e c decode ctx domainsBasePath (v_opt vs) w")
    case (FetchPage root r1 w1)
    with Cons.prems have eq: "root = p" by (simp split: if_splits)
    show ?thesis
    proof (cases "last_page p")
      case True
      with Cons.prems FetchPage eq show ?thesis
        by (subst Domains_Index_loop.simps) (simp add: Domains_body_fetch split: if_splits)
    next
      case False
      with Cons.prems FetchPage eq
      have run: "pages_run (fetch_page e c decode ctx domainsBasePath) (next_options (v_opt vs) p) w1 ps
                   = Some (po', r, w')"
        by simp
      let ?vs = "vs\<lparr>v_resp := r1, v_items := v_items vs @ rootItems p,
                     v_opt := next_options (v_opt vs) p\<rparr>"
      from run have "Domains_Index_loop e c decode ctx (?vs, w1) =
          Some (IndexReturn (v_items ?vs @ concat (map rootItems ps)) r (v_err ?vs) (Some po') w')"
        by (intro Cons.IH) simp
      with False FetchPage eq show ?thesis
        by (subst Domains_Index_loop.simps) (simp add: Domains_body_fetch)
    qed
  qed (use Cons.prems in simp_all)
qed

lemma Aliases_loop_run:
  "pages_run (fetch_page e c decode ctx (rackspaceEmailAliasesBasePath domain)) (v_opt vs) w ps
     = Some (po', r, w') \<Longrightarrow>
   Aliases_Index_loop e c decode ctx domain (vs, w) =
     Some (IndexReturn (v_items vs @ concat (map rootItems ps)) (v_resp vs) None (Some po') w')"
proof (induction ps arbitrary: vs w)
  case Nil
  then show ?case by simp
next
  case (Cons p ps)
  let ?f = "fetch_page e c decode ctx (rackspaceEmailAliasesBasePath domain)"
  show ?case
  proof (cases "?f (v_opt vs) w")
    case (FetchPage root r1 w1)
    with Cons.prems have eq: "root = p" by (simp split: if_splits)
    show ?thesis
    proof (cases "last_page p")
      case True
      with Cons.prems FetchPage eq show ?thesis
        by (subst Aliases_Index_loop.simps) (simp add: Aliases_body_fetch split: if_splits)
    next
      case False
      with Cons.prems FetchPage eq
      have run: "pages_run ?f (next_options (v_opt vs) p) w1 ps = Some (po', r, w')"
        by simp
      let ?vs = "vs\<lparr>v_err := None, v_items := v_items vs @ rootItems p,
                     v_opt := next_options (v_opt vs) p\<rparr>"
      from run have "Aliases_Index_loop e c decode ctx domain (?vs, w1) =
          Some (IndexReturn (v_items ?vs @ concat (map rootItems ps)) (v_resp ?vs) None (Some po') w')"
        by (intro Cons.IH) simp
      with False FetchPage eq show ?thesis
        by (subst Aliases_Index_loop.simps) (simp add: Aliases_body_fetch)
    qed
  qed (use Cons.prems in simp_all)
qed

lemma pages_run_calls:
  "pages_run (fetch_page e c decode ctx base) po w ps = Some (po', r, w') \<Longrightarrow>
   length (sent w') = length (sent w) + length ps \<and> r \<noteq> None"
proof (induction ps arbitrary: po w)
  case Nil
  then show ?case by simp
next
  case (Cons p ps)
  show ?case
  proof (cases "fetch_page e c decode ctx base po w")
    case (FetchPage root r1 w1)
    note fp = fetch_page_success [OF FetchPage]
    show ?thesis
    proof (cases "last_page p")
      case True
      with Cons.prems FetchPage fp show ?thesis by (auto split: if_splits)
    next
      case False
      with Cons.prems FetchPage
      have "pages_run (fetch_page e c decode ctx base) (next_options po p) w1 ps = Some (po', r, w')"
        by (simp split: if_splits)
      from Cons.IH [OF this] fp show ?thesis by simp
    qed
  qed (use Cons.prems in simp_all)
qed

text \<open>Pages that are not the last, then a fetch that fails.\<close>

lemma Domains_loop_abort:
  "pages_prefix (fetch_page e c decode ctx domainsBasePath) (v_opt vs) w ps = Some (po1, w1) \<Longrightarrow>
   fetch_page e c decode ctx domainsBasePath po1 w1 = FetchError r x w2 \<Longrightarrow>
   Domains_Index_loop e c decode ctx (vs, w) = Some (IndexReturn [] r (Some x) (Some po1) w2)"
proof (induction ps arbitrary: vs w)
  case Nil
  then show ?case
    by (subst Domains_Index_loop.simps) (simp add: Domains_body_fetch)
next
  case (Cons p ps)
  show ?case
  proof (cases "fetch_page e c decode ctx domainsBasePath (v_opt vs) w")
    case (FetchPage root r1 w1')
    with Cons.prems(1) have eq: "root = p" and nl: "\<not> last_page p"
      and run: "pages_prefix (fetch_page e c decode ctx domainsBasePath) (next_options (v_opt vs) p) w1' ps
                  = Some (po1, w1)"
      by (simp_all split: if_splits)
    let ?vs = "vs\<lparr>v_resp := r1, v_items := v_items vs @ rootItems p,
                   v_opt := next_options (v_opt vs) p\<rparr>"
    from run have "pages_prefix (fetch_page e c decode ctx domainsBasePath) (v_opt ?vs) w1' ps
                     = Some (po1, w1)"
      by simp
    from Cons.IH [OF this Cons.prems(2)] FetchPage eq nl show ?thesis
      by (subst Domains_Index_loop.simps) (simp add: Domains_body_fetch)
  qed (use Cons.prems in simp_all)
qed

lemma Aliases_loop_abort:
  "pages_prefix (fetch_page e c decode ctx (rackspaceEmailAliasesBasePath domain)) (v_opt vs) w ps
     = Some (po1, w1) \<Longrightarrow>
   fetch_page e c decode ctx (rackspaceEmailAliasesBasePath domain) po1 w1 = FetchError r x w2 \<Longrightarrow>
   Aliases_Index_loop e c decode ctx domain (vs, w) = Some (IndexReturn [] r (Some x) (Some po1) w2)"
proof (induction ps arbitrary: vs w)
  case Nil
  then show ?case
    by (subst Aliases_Index_loop.simps) (simp add: Aliases_body_fetch)
next
  case (Cons p ps)
  let ?f = "fetch_page e c decode ctx (rackspaceEmailAliasesBasePath domain)"
  show ?case
  proof (cases "?f (v_opt vs) w")
    case (FetchPage root r1 w1')
    with Cons.prems(1) have eq: "root = p" and nl: "\<not> last_page p"
      and run: "pages_prefix ?f (next_options (v_opt vs) p) w1' ps = Some (po1, w1)"
      by (simp_all split: if_splits)
    let ?vs = "vs\<lparr>v_err := None, v_items := v_items vs @ rootItems p,
                   v_opt := next_options (v_opt vs) p\<rparr>"
    from run have "pages_prefix ?f (v_opt ?vs) w1' ps = Some (po1, w1)"
      by simp
    from Cons.IH [OF this Cons.prems(2)] FetchPage eq nl show ?thesis
      by (subst Aliases_Index_loop.simps) (simp add: Aliases_body_fetch)
  qed (use Cons.prems in simp_all)
qed

text \<open>The listings themselves, and the response they return when they return no
  error.\<close>

lemma Domains_Index_run:
  "pages_run (fetch_page e c decode ctx domainsBasePath) (initial_options p) w ps = Some (po', r, w') \<Longrightarrow>
   Domains_Index e c decode ctx p w = Some (IndexReturn (concat (map rootItems ps)) r None (Some po') w')"
  using Domains_loop_run [of e c decode ctx
      "\<lparr>v_items = [], v_resp = None, v_err = None, v_opt = initial_options p\<rparr>" w ps po' r w']
  by (simp add: Domains_Index_def initial_options_def)

lemma Aliases_Index_run:
  "domain \<noteq> [] \<Longrightarrow>
   pages_run (fetch_page e c decode ctx (rackspaceEmailAliasesBasePath domain)) (initial_options p) w ps
     = Some (po', r, w') \<Longrightarrow>
   Aliases_Index e c decode ctx p domain w =
     Some (IndexReturn (concat (map rootItems ps)) None None (Some po') w')"
  using Aliases_loop_run [of e c decode ctx domain
      "\<lparr>v_items = [], v_resp = None, v_err = None, v_opt = initial_options p\<rparr>" w ps po' r w']
  by (cases domain) (simp_all add: Aliases_Index_def initial_options_def)

lemma Domains_loop_resp:
  assumes "Domains_Index_loop e c decode ctx s = Some res"
  shows "\<forall>xs r po w'. res = IndexReturn xs r None po w' \<longrightarrow> r \<noteq> None"
proof (rule Domains_Index_loop.raw_induct
    [where P = "\<lambda>e c decode ctx s res. \<forall>xs r po w'. res = IndexReturn xs r None po w' \<longrightarrow> r \<noteq> None",
     OF _ assms])
  fix loop e c decode ctx s res
  assume IH: "\<And>e c decode ctx s res. loop e c decode ctx s = Some res \<Longrightarrow>
                \<forall>xs r po w'. res = IndexReturn xs r None po w' \<longrightarrow> r \<noteq> None"
    and step: "(case Domains_Index_body e c decode ctx s of
                  Return r \<Rightarrow> Some r
                | Break s' \<Rightarrow>
                    Some (IndexReturn (v_items (fst s')) (v_resp (fst s')) (v_err (fst s'))
                            (Some (v_opt (fst s'))) (snd s'))
                | Continue s' \<Rightarrow> loop e c decode ctx s') = Some res"
  obtain vs w where s: "s = (vs, w)" by (cases s)
  show "\<forall>xs r po w'. res = IndexReturn xs r None po w' \<longrightarrow> r \<noteq> None"
  proof (cases "fetch_page e c decode ctx domainsBasePath (v_opt vs) w")
    case (FetchPage root r1 w1)
    from fetch_page_success [OF this] have "r1 \<noteq> None" ..
    with step IH FetchPage s show ?thesis
      by (auto simp: Domains_body_fetch split: if_splits)
  qed (use step s in \<open>auto simp: Domains_body_fetch\<close>)
qed

lemma Aliases_loop_resp:
  assumes "Aliases_Index_loop e c decode ctx domain s = Some res"
  shows "\<forall>xs r po w'. res = IndexReturn xs r None po w' \<longrightarrow> r = v_resp (fst s)"
proof (rule Aliases_Index_loop.raw_induct
    [where P = "\<lambda>e c decode ctx domain s res.
                  \<forall>xs r po w'. res = IndexReturn xs r None po w' \<longrightarrow> r = v_resp (fst s)",
     OF _ assms])
  fix loop e c decode ctx domain s res
  assume IH: "\<And>e c decode ctx domain s res. loop e c decode ctx domain s = Some res \<Longrightarrow>
                \<forall>xs r po w'. res = IndexReturn xs r None po w' \<longrightarrow> r = v_resp (fst s)"
    and step: "(case Aliases_Index_body e c decode ctx domain s of
                  Return r \<Rightarrow> Some r
                | Break s' \<Rightarrow>
                    Some (IndexReturn (v_items (fst s')) (v_resp (fst s')) (v_err (fst s'))
                            (Some (v_opt (fst s'))) (snd s'))
                | Continue s' \<Rightarrow> loop e c decode ctx domain s') = Some res"
  obtain vs w where s: "s = (vs, w)" by (cases s)
  show "\<forall>xs r po w'. res = IndexReturn xs r None po w' \<longrightarrow> r = v_resp (fst s)"
  proof (cases "fetch_page e c decode ctx (rackspaceEmailAliasesBasePath domain) (v_opt vs) w")
    case (FetchPage root r1 w1)
    show ?thesis
    proof (cases "last_page root")
      case True
      with step FetchPage s show ?thesis
        by (auto simp: Aliases_body_fetch)
    next
      case False
      with step FetchPage s
      have "loop e c decode ctx domain
              (vs\<lparr>v_err := None, v_items := v_items vs @ rootItems root,
                  v_opt := next_options (v_opt vs) root\<rparr>, w1) = Some res"
        by (simp add: Aliases_body_fetch)
      from IH [OF this] s show ?thesis by simp
    qed
  qed (use step s in \<open>auto simp: Aliases_body_fetch\<close>)
qed

section \<open>The dispatcher after the transport has answered\<close>

lemma CheckResponse_success:
  "200 \<le> StatusCode resp \<and> StatusCode resp \<le> 299 \<Longrightarrow> CheckResponse e resp = (None, resp)"
  by (simp add: CheckResponse_def)

lemma CheckResponse_error:
  "\<not> (200 \<le> StatusCode resp \<and> StatusCode resp \<le> 299) \<Longrightarrow> \<exists>er resp'. CheckResponse e resp = (Some er, resp')"
  by (simp add: CheckResponse_def Let_def)

lemma Do_classify:
  assumes "limiter_Wait_error e ctx
             (if Method req = ''GET'' then getLimiter w else putPostDeleteLimiter w) (outside w) = None"
    and "client_Do e ctx req (outside w) = (Inr resp, n')"
    and "DumpResponse e resp = None"
  shows "Do e c ctx req decode v w =
     (let w2 = after_dispatch req n' w in
      case CheckResponse e resp of
        (Some er, resp') \<Rightarrow> Returned (Some (newResponse resp')) (Some (APIError er)) v w2
      | (None, resp') \<Rightarrow>
          (case v of
             NoDest \<Rightarrow> Returned (Some (newResponse resp')) None v w2
           | WriterDest wr \<Rightarrow>
               (case io_Copy wr (content (RespBody resp')) of
                  (Some x, wr') \<Rightarrow> Returned None (Some x) (WriterDest wr') w2
                | (None, wr') \<Rightarrow> Returned (Some (newResponse resp')) None (WriterDest wr') w2)
           | ValueDest y \<Rightarrow>
               (case decode (content (RespBody resp')) y of
                  (Some x, y') \<Rightarrow> Returned None (Some (JSONError x)) (ValueDest y') w2
                | (None, y') \<Rightarrow> Returned (Some (newResponse resp')) None (ValueDest y') w2)))"
proof (cases "Method req = ''GET''")
  case True
  with assms show ?thesis
    by (simp add: Do_def Wait_def DoRequestWithClient_def after_dispatch_def Let_def)
next
  case False
  with assms show ?thesis
    by (simp add: Do_def Wait_def DoRequestWithClient_def after_dispatch_def Let_def)
qed

section \<open>Headers, signature and timestamp\<close>

lemma map_of_Header_Add_same:
  "map_of (Header_Add k v h) k = Some (Header_Values k h @ [v])"
proof (cases "map_of h k")
  case None
  then show ?thesis by (simp add: Header_Add_def Header_Values_def map_add_def)
next
  case (Some vs)
  have "map_of h k = Some vs \<Longrightarrow>
        map_of (map (\<lambda>(k', vs'). if k' = k then (k', vs' @ [v]) else (k', vs')) h) k = Some (vs @ [v])"
    by (induction h) (auto split: if_splits)
  with Some show ?thesis by (simp add: Header_Add_def Header_Values_def)
qed

lemma map_of_Header_Add_other:
  "k' \<noteq> k \<Longrightarrow> map_of (Header_Add k v h) k' = map_of h k'"
proof (cases "map_of h k")
  case None
  assume "k' \<noteq> k"
  with None show ?thesis by (simp add: Header_Add_def map_add_def split: option.splits)
next
  case (Some vs)
  assume ne: "k' \<noteq> k"
  have "map_of (map (\<lambda>(k'', vs'). if k'' = k then (k'', vs' @ [v]) else (k'', vs')) h) k' = map_of h k'"
    using ne by (induction h) auto
  with Some show ?thesis by (simp add: Header_Add_def)
qed

lemma Header_Values_Add:
  "Header_Values k' (Header_Add k v h) = (if k' = k then Header_Values k h @ [v] else Header_Values k' h)"
  by (simp add: Header_Values_def map_of_Header_Add_same map_of_Header_Add_other)

lemma Header_Values_Nil: "Header_Values k [] = []"
  by (simp add: Header_Values_def)

lemma Header_Get_Values: "Header_Get k h = (case Header_Values k h of [] \<Rightarrow> [] | v # _ \<Rightarrow> v)"
  by (simp add: Header_Get_def Header_Values_def split: option.splits list.splits)

lemma sign_Header:
  "Header_Values ''X-Api-Signature'' (Header (sign e c w req)) =
     Header_Values ''X-Api-Signature'' (Header req) @
     [signature e (userKey c) (secretKey c) (Header_Get ''User-Agent'' (Header req))
        (Format_20060102150405 (time_Now e (outside w)))]"
  by (simp add: sign_def signature_def Let_def Header_Values_Add)

lemma NewRequest_Header:
  assumes "NewRequest e c w ctx method urlStr body = Inr req"
  shows "Header_Values ''Content-Type'' (Header req) =
           [if method = ''POST'' then ''application/x-www-form-urlencoded'' else mediaType]"
    and "Header_Values ''Accept'' (Header req) = [mediaType]"
    and "Header_Values ''User-Agent'' (Header req) = [UserAgent c]"
    and "Header_Values ''X-Api-Signature'' (Header req) =
           [signature e (userKey c) (secretKey c) (UserAgent c)
              (Format_20060102150405 (time_Now e (outside w)))]"
    and "Method req = (if method = [] then ''GET'' else method)"
  using assms
  by (auto simp: NewRequest_def http_NewRequest_def sign_def signature_def Let_def Header_Values_Add
      Header_Get_Values Header_Values_Nil
      split: sum.splits if_splits)

lemma decimal_digits: "list_all is_digit (decimal n)"
proof (induction n rule: decimal.induct)
  case (1 n)
  have d: "is_digit (digit_char m)" for m
  proof -
    have "list_all is_digit ''0123456789''" by (simp add: is_digit_def)
    then have "is_digit (''0123456789'' ! (m mod 10))" by (simp add: list_all_length)
    then show ?thesis by (simp add: digit_char_def)
  qed
  show ?case
  proof (cases "n < 10")
    case True
    then show ?thesis by (subst decimal.simps) (simp add: d)
  next
    case False
    with 1 show ?thesis by (subst decimal.simps) (simp add: d)
  qed
qed

lemma decimal_length:
  "n < 10 \<Longrightarrow> length (decimal n) = 1"
  "10 \<le> n \<Longrightarrow> n < 100 \<Longrightarrow> length (decimal n) = 2"
  "100 \<le> n \<Longrightarrow> n < 1000 \<Longrightarrow> length (decimal n) = 3"
  "1000 \<le> n \<Longrightarrow> n < 10000 \<Longrightarrow> length (decimal n) = 4"
proof -
  show 1: "n < 10 \<Longrightarrow> length (decimal n) = 1" for n
    by (subst decimal.simps) simp
  show 2: "10 \<le> n \<Longrightarrow> n < 100 \<Longrightarrow> length (decimal n) = 2" for n
    by (subst decimal.simps) (simp add: 1)
  show 3: "100 \<le> n \<Longrightarrow> n < 1000 \<Longrightarrow> length (decimal n) = 3" for n
    by (subst decimal.simps) (simp add: 2)
  show "1000 \<le> n \<Longrightarrow> n < 10000 \<Longrightarrow> length (decimal n) = 4"
    by (subst decimal.simps) (simp add: 3)
qed

lemma appendInt_width:
  assumes "0 \<le> x" and "length (decimal (nat x)) \<le> k"
  shows "length (appendInt x k) = k \<and> list_all is_digit (appendInt x k)"
proof -
  have "list_all is_digit (replicate m (CHR ''0''))" for m
    by (simp add: list_all_iff is_digit_def)
  with assms show ?thesis
    by (simp add: appendInt_def Let_def decimal_digits)
qed

lemma appendInt_2: "n < 100 \<Longrightarrow> length (appendInt (int n) 2) = 2 \<and> list_all is_digit (appendInt (int n) 2)"
proof (rule appendInt_width)
  assume "n < 100"
  then show "length (decimal (nat (int n))) \<le> 2"
    using decimal_length(1) [of n] decimal_length(2) [of n] by (cases "n < 10") simp_all
qed simp

lemma appendInt_4:
  assumes "0 \<le> y" "y \<le> 9999"
  shows "length (appendInt y 4) = 4 \<and> list_all is_digit (appendInt y 4)"
proof (rule appendInt_width)
  let ?n = "nat y"
  from assms have "?n < 10000" by simp
  then show "length (decimal ?n) \<le> 4"
    using decimal_length [of ?n] by (cases "?n < 10"; cases "?n < 100"; cases "?n < 1000") simp_all
qed (use assms in simp)

lemma Format_layout:
  assumes "calendar t"
  shows "length (Format_20060102150405 t) = 14 \<and> list_all is_digit (Format_20060102150405 t)"
proof -
  from assms have y: "0 \<le> Year t" "Year t \<le> 9999"
    and m: "Month t < 100" "Day t < 100" "Hour t < 100" "Minute t < 100" "Second t < 100"
    by (simp_all add: calendar_def)
  from appendInt_4 [OF y] appendInt_2 [OF m(1)] appendInt_2 [OF m(2)] appendInt_2 [OF m(3)]
    appendInt_2 [OF m(4)] appendInt_2 [OF m(5)]
  show ?thesis
    by (simp add: Format_20060102150405_def)
qed

lemma digits_value_foldl:
  "foldl (\<lambda>n c. 10 * n + (of_char c - 48)) a ds =
     a * 10 ^ length ds + foldl (\<lambda>n c. 10 * n + (of_char c - 48)) (0::nat) ds"
proof (induction ds arbitrary: a)
  case Nil
  then show ?case by simp
next
  case (Cons d ds)
  have "foldl (\<lambda>n c. 10 * n + (of_char c - 48)) a (d # ds) =
        foldl (\<lambda>n c. 10 * n + (of_char c - 48)) (10 * a + (of_char d - 48)) ds"
    by simp
  also have "\<dots> = (10 * a + (of_char d - 48)) * 10 ^ length ds +
                 foldl (\<lambda>n c. 10 * n + (of_char c - 48)) (0::nat) ds"
    by (rule Cons.IH)
  also have "foldl (\<lambda>n c. 10 * n + (of_char c - 48)) (0::nat) (d # ds) =
             (of_char d - 48) * 10 ^ length ds + foldl (\<lambda>n c. 10 * n + (of_char c - 48)) (0::nat) ds"
    using Cons.IH [of "of_char d - 48"] by simp
  ultimately show ?case by (simp add: algebra_simps)
qed

lemma digits_value_append:
  "digits_value (xs @ ys) = digits_value xs * 10 ^ length ys + digits_value ys"
  unfolding digits_value_def using digits_value_foldl [of "foldl (\<lambda>n c. 10 * n + (of_char c - 48)) 0 xs" ys]
  by simp

lemma digit_char_value: "of_char (digit_char d) - 48 = d mod 10"
proof -
  define x where "x = d mod 10"
  then have "x < 10" by simp
  then have "x = 0 \<or> x = 1 \<or> x = 2 \<or> x = 3 \<or> x = 4 \<or> x = 5 \<or> x = 6 \<or> x = 7 \<or> x = 8 \<or> x = 9"
    by arith
  then have "of_char (''0123456789'' ! x) - 48 = x"
    by (elim disjE) simp_all
  then show ?thesis
    by (simp add: digit_char_def x_def)
qed

lemma digits_value_decimal: "digits_value (decimal n) = n"
proof (induction n rule: decimal.induct)
  case (1 n)
  show ?case
  proof (cases "n < 10")
    case True
    then show ?thesis
      by (subst decimal.simps) (simp add: digits_value_def digit_char_value)
  next
    case False
    with 1 have "digits_value (decimal (n div 10)) = n div 10" by simp
    with False show ?thesis
      by (subst decimal.simps)
         (simp add: digits_value_append, simp add: digits_value_def digit_char_value)
  qed
qed

lemma digits_value_zeros: "digits_value (replicate m (CHR ''0'') @ ds) = digits_value ds"
  by (induction m) (simp_all add: digits_value_def)

lemma digits_value_appendInt: "0 \<le> x \<Longrightarrow> digits_value (appendInt x k) = nat x"
  by (simp add: appendInt_def Let_def digits_value_zeros digits_value_decimal)

lemma Format_value:
  assumes "calendar t"
  shows "digits_value (Format_20060102150405 t) =
           nat (Year t) * 10 ^ 10 + Month t * 10 ^ 8 + Day t * 10 ^ 6 + Hour t * 10 ^ 4 +
           Minute t * 10 ^ 2 + Second t"
proof -
  from assms have m: "Month t < 100" "Day t < 100" "Hour t < 100" "Minute t < 100" "Second t < 100"
    and y: "0 \<le> Year t"
    by (simp_all add: calendar_def)
  note l = appendInt_2 [OF m(1)] appendInt_2 [OF m(2)] appendInt_2 [OF m(3)]
    appendInt_2 [OF m(4)] appendInt_2 [OF m(5)]
  from l y show ?thesis
    by (simp add: Format_20060102150405_def digits_value_append digits_value_appendInt)
qed


section \<open>The error classifier on the bodies it is meant for\<close>

text \<open>An empty body, a body that cannot be read, a body that is not JSON, and a body
  that is the error envelope: the error carries the response that was classified.\<close>

lemma CheckResponse_iff: "fst (CheckResponse e r) = None \<longleftrightarrow> 200 \<le> StatusCode r \<and> StatusCode r \<le> 299"
  by (simp add: CheckResponse_def Let_def)

lemma CheckResponse_empty_body:
  assumes "\<not> (200 \<le> StatusCode r \<and> StatusCode r \<le> 299)" and "content (RespBody r) = []"
  shows "CheckResponse e r = (Some \<lparr>Response = Some r, Message = [], RequestID = []\<rparr>, r)"
  using assms by (simp add: CheckResponse_def Let_def deref_def)

lemma CheckResponse_read_error:
  assumes "\<not> (200 \<le> StatusCode r \<and> StatusCode r \<le> 299)" and "read_error (RespBody r) = Some x"
  shows "CheckResponse e r = (Some \<lparr>Response = Some r, Message = [], RequestID = []\<rparr>, r)"
  using assms by (simp add: CheckResponse_def Let_def deref_def)

lemma CheckResponse_not_json:
  assumes "\<not> (200 \<le> StatusCode r \<and> StatusCode r \<le> 299)" and "read_error (RespBody r) = None"
    and "content (RespBody r) \<noteq> []" and "json_parse e (content (RespBody r)) = None"
  shows "CheckResponse e r =
           (Some \<lparr>Response = Some r, Message = content (RespBody r), RequestID = []\<rparr>, r)"
  using assms by (simp add: CheckResponse_def Let_def deref_def Unmarshal_ErrorResponse_def)

lemma store_member_keeps:
  assumes "ErrorResponse_field (json_foldName e) (fst kv) \<noteq> Some FResponse"
  shows "ptr (store_member e kv st) = ptr st \<and> checked (store_member e kv st) = checked st"
  using assms
  by (cases "ErrorResponse_field (json_foldName e) (fst kv)")
     (auto simp: store_member_def split: er_field.splits prod.splits)

lemma fold_store_member_keeps:
  "list_all (\<lambda>kv. ErrorResponse_field (json_foldName e) (fst kv) \<noteq> Some FResponse) ms \<Longrightarrow>
   ptr (fold (store_member e) ms st) = ptr st \<and> checked (fold (store_member e) ms st) = checked st"
proof (induction ms arbitrary: st)
  case Nil
  then show ?case by simp
next
  case (Cons kv ms)
  then have a: "ErrorResponse_field (json_foldName e) (fst kv) \<noteq> Some FResponse"
    and b: "list_all (\<lambda>kv. ErrorResponse_field (json_foldName e) (fst kv) \<noteq> Some FResponse) ms"
    by simp_all
  from store_member_keeps [OF a, of st] Cons.IH [OF b, of "store_member e kv st"]
  show ?case by simp
qed

text \<open>A body whose members do not name the field \<^verbatim>\<open>Response\<close> leaves the pointer alone.\<close>

lemma CheckResponse_keeps_response:
  assumes "\<not> (200 \<le> StatusCode r \<and> StatusCode r \<le> 299)"
    and "json_parse e (content (RespBody r)) = Some (JObject ms)"
    and "list_all (\<lambda>kv. ErrorResponse_field (json_foldName e) (fst kv) \<noteq> Some FResponse) ms"
  shows "\<exists>m i. CheckResponse e r = (Some \<lparr>Response = Some r, Message = m, RequestID = i\<rparr>, r)"
proof -
  let ?st0 = "\<lparr>saved = False, ptr = ToChecked, checked = r, msg = [], rid = []\<rparr>"
  from fold_store_member_keeps [OF assms(3), of ?st0]
  have k: "ptr (fold (store_member e) ms ?st0) = ToChecked"
    "checked (fold (store_member e) ms ?st0) = r"
    by simp_all
  from assms(1) assms(2) k show ?thesis
    by (simp add: CheckResponse_def Let_def deref_def Unmarshal_ErrorResponse_def
        split: prod.splits bool.splits)
qed

lemma CheckResponse_envelope:
  assumes "\<not> (200 \<le> StatusCode r \<and> StatusCode r \<le> 299)" and "read_error (RespBody r) = None"
    and "content (RespBody r) \<noteq> []"
    and "json_parse e (content (RespBody r)) =
           Some (JObject [(''message'', JString m), (''request_id'', JString i)])"
  shows "CheckResponse e r = (Some \<lparr>Response = Some r, Message = m, RequestID = i\<rparr>, r)"
  using assms
  by (simp add: CheckResponse_def Let_def deref_def Unmarshal_ErrorResponse_def store_member_def
      ErrorResponse_field_def store_string_def)

section \<open>The requests of a listing\<close>














section \<open>Facts of the reference environment\<close>

lemma ref_env_sel:
  "url_Parse ref_env = ref_url_Parse"
  "url_String ref_env = ref_url_String"
  "url_ResolveReference ref_env = ref_url_ResolveReference"
  "url_ParseQuery ref_env = ref_url_ParseQuery"
  "sha1_Sum ref_env = (\<lambda>s. ''sha1('' @ s @ '')'')"
  "base64_EncodeToString ref_env = (\<lambda>s. ''base64('' @ s @ '')'')"
  "time_Now ref_env = clock"
  "json_parse ref_env = ref_json_parse"
  "json_foldName ref_env = ref_foldName"
  "json_into_http_Response ref_env = ref_into_http_Response"
  "limiter_Wait_error ref_env = (\<lambda>ctx lim n. ctx)"
  "client_Do ref_env = ref_client_Do"
  "DumpResponse_error ref_env = (\<lambda>r. None)"
  by (simp_all add: ref_env_def)

lemma ref_Client_sel:
  "BaseURL ref_Client = \<lparr>RawQuery = [], Rest = ''https://api.emailsrvr.com/''\<rparr>"
  "UserAgent ref_Client = ''reago/1.0''"
  "userKey ref_Client = ''key''"
  "secretKey ref_Client = ''secret''"
  by (simp_all add: ref_Client_def)

lemma ref_world_sel:
  "getLimiter (ref_world rs) = \<lparr>taken = 0\<rparr>"
  "putPostDeleteLimiter (ref_world rs) = \<lparr>taken = 0\<rparr>"
  "sent (ref_world rs) = []"
  "clock (outside (ref_world rs)) = ref_time"
  "replies (outside (ref_world rs)) = rs"
  by (simp_all add: ref_world_def)

lemma ref_served_sel:
  "getLimiter (ref_served req w) = \<lparr>taken = Suc (taken (getLimiter w))\<rparr>"
  "putPostDeleteLimiter (ref_served req w) = putPostDeleteLimiter w"
  "sent (ref_served req w) = sent w @ [req]"
  "clock (outside (ref_served req w)) = clock (outside w)"
  "replies (outside (ref_served req w)) = tl (replies (outside w))"
  by (simp_all add: ref_served_def)

lemmas json_eval = ref_json_parse_def is_space_def punct_def word_char_def is_alnum_def
  word_token_def valid_number_def is_digit_def

lemmas decode_eval = json_eval ref_Decode_def store_root_def store_go_int_def name_of_def
  int_of_literal_def digits_value_def ref_foldName_def new_listRoot_def page_of_def Let_def

lemmas addOptions_eval = addOptions_def ref_env_sel ref_url_Parse_def domainsBasePath_def
  rackspaceEmailAliasesBasePath_def ref_url_ParseQuery_def query_Values_def Itoa_def decimal.simps
  digit_char_def Values_Encode_def QueryEscape_def escape_byte_def is_alnum_def ref_url_String_def
  defaultPageSize_def

lemma ref_stamp: "Format_20060102150405 ref_time = ''20190309080706''"
  by (simp add: Format_20060102150405_def ref_time_def appendInt_def decimal.simps digit_char_def)

lemma ref_sign:
  "clock (outside w) = ref_time \<Longrightarrow> Header_Get ''User-Agent'' (Header req) = ''reago/1.0'' \<Longrightarrow>
   sign ref_env ref_Client w req =
     req\<lparr>Header := Header_Add ''X-Api-Signature''
       ''key:20190309080706:base64(sha1(keyreago/1.020190309080706secret))'' (Header req)\<rparr>"
  by (simp add: sign_def ref_env_sel ref_Client_sel ref_stamp)

lemmas NewRequest_eval = ref_sign ref_env_sel ref_Client_sel NewRequest_def http_NewRequest_def
  validMethod_def is_token_char_def is_alnum_def ref_url_Parse_def ref_url_String_def
  ref_url_ResolveReference_def Values_Encode_def Header_Add_def Header_Get_def mediaType_def
  ref_GET_def

text \<open>A \<^verbatim>\<open>GET\<close> that the transport answers with status 200 and a body that decodes.\<close>

lemma ref_Do_page:
  "Method req = ''GET'' \<Longrightarrow> replies (outside w) = reply 200 text # rs \<Longrightarrow>
   decode text y = (None, y') \<Longrightarrow>
   Do ref_env c None req decode (ValueDest y) w =
     Returned (Some (newResponse (ref_response 200 text req))) None (ValueDest y') (ref_served req w)"
  by (simp add: Do_def Wait_def DoRequestWithClient_def DumpResponse_def CheckResponse_def
      ref_env_sel ref_client_Do_def reply_def ref_response_def ref_served_def)

lemma ref_fetch_page:
  assumes "addOptions ref_env base (Some po) = (path, None)"
    and "NewRequest ref_env ref_Client w None ''GET'' path None = Inr (ref_GET url)"
    and "replies (outside w) = reply 200 text # rs"
    and "decode text new_listRoot = (None, pg)"
  shows "fetch_page ref_env ref_Client decode None base po w =
           FetchPage pg (Some (newResponse (ref_response 200 text (ref_GET url))))
             (ref_served (ref_GET url) w)"
proof -
  have m: "Method (ref_GET url) = ''GET''" by (simp add: ref_GET_def)
  from m assms(3) assms(4)
  have "Do ref_env ref_Client None (ref_GET url) decode (ValueDest new_listRoot) w =
          Returned (Some (newResponse (ref_response 200 text (ref_GET url)))) None (ValueDest pg)
            (ref_served (ref_GET url) w)"
    by (rule ref_Do_page)
  with assms(1) assms(2) show ?thesis
    by (simp add: fetch_page_def root_of_def)
qed

text \<open>A \<^verbatim>\<open>GET\<close> that the transport answers with status 500 and an empty body.\<close>

lemma ref_Do_500:
  "Method req = ''GET'' \<Longrightarrow> replies (outside w) = reply 500 [] # rs \<Longrightarrow>
   Do ref_env c None req decode v w =
     Returned (Some (newResponse (ref_response 500 [] req)))
       (Some (APIError \<lparr>Response = Some (ref_response 500 [] req), Message = [], RequestID = []\<rparr>))
       v (ref_served req w)"
  by (simp add: Do_def Wait_def DoRequestWithClient_def DumpResponse_def CheckResponse_def
      ref_env_sel ref_client_Do_def reply_def ref_response_def ref_served_def deref_def)

lemma ref_fetch_500:
  assumes "addOptions ref_env base (Some po) = (path, None)"
    and "NewRequest ref_env ref_Client w None ''GET'' path None = Inr (ref_GET url)"
    and "replies (outside w) = reply 500 [] # rs"
  shows "fetch_page ref_env ref_Client decode None base po w =
           FetchError (Some (newResponse (ref_response 500 [] (ref_GET url))))
             (APIError \<lparr>Response = Some (ref_response 500 [] (ref_GET url)),
                        Message = [], RequestID = []\<rparr>)
             (ref_served (ref_GET url) w)"
proof -
  have m: "Method (ref_GET url) = ''GET''" by (simp add: ref_GET_def)
  from m assms(3)
  have "Do ref_env ref_Client None (ref_GET url) decode (ValueDest new_listRoot) w =
          Returned (Some (newResponse (ref_response 500 [] (ref_GET url))))
            (Some (APIError \<lparr>Response = Some (ref_response 500 [] (ref_GET url)),
                              Message = [], RequestID = []\<rparr>))
            (ValueDest new_listRoot) (ref_served (ref_GET url) w)"
    by (rule ref_Do_500)
  with assms(1) assms(2) show ?thesis
    by (simp add: fetch_page_def)
qed

lemma domains_page1_decodes:
  "ref_Decode ''domains'' domains_page1 new_listRoot = (None, page_of 0 1 2 [''foo.com''])"
  by (simp add: domains_page1_def decode_eval)

lemma domains_page2_decodes:
  "ref_Decode ''domains'' domains_page2 new_listRoot = (None, page_of 1 1 2 [''bar.com''])"
  by (simp add: domains_page2_def decode_eval)

lemma domains_single_decodes:
  "ref_Decode ''domains'' domains_single new_listRoot = (None, page_of 0 0 0 [''foo.com'', ''bar.com''])"
  by (simp add: domains_single_def decode_eval)

lemma aliases_page1_decodes:
  "ref_Decode ''aliases'' aliases_page1 new_listRoot = (None, page_of 0 1 2 [''foo''])"
  by (simp add: aliases_page1_def decode_eval)

lemma aliases_page2_decodes:
  "ref_Decode ''aliases'' aliases_page2 new_listRoot = (None, page_of 1 1 2 [''bar''])"
  by (simp add: aliases_page2_def decode_eval)

lemma domains_paths:
  "addOptions ref_env domainsBasePath (Some \<lparr>Offset = 0, Size = 0\<rparr>) = (''v1/domains'', None)"
  "addOptions ref_env domainsBasePath (Some \<lparr>Offset = 0, Size = 1\<rparr>) = (''v1/domains?size=1'', None)"
  "addOptions ref_env domainsBasePath (Some \<lparr>Offset = 1, Size = 1\<rparr>) =
     (''v1/domains?offset=1&size=1'', None)"
  "addOptions ref_env domainsBasePath (Some \<lparr>Offset = 0, Size = 50\<rparr>) = (''v1/domains?size=50'', None)"
  by (simp_all add: addOptions_eval)

lemma aliases_paths:
  "addOptions ref_env (rackspaceEmailAliasesBasePath ''domain.com'') (Some \<lparr>Offset = 0, Size = 1\<rparr>) =
     (''v1/domains/domain.com/rs/aliases?size=1'', None)"
  "addOptions ref_env (rackspaceEmailAliasesBasePath ''domain.com'') (Some \<lparr>Offset = 1, Size = 1\<rparr>) =
     (''v1/domains/domain.com/rs/aliases?offset=1&size=1'', None)"
  by (simp_all add: addOptions_eval)

lemma domains_requests:
  assumes "clock (outside w) = ref_time"
  shows "NewRequest ref_env ref_Client w None ''GET'' ''v1/domains'' None =
           Inr (ref_GET ''https://api.emailsrvr.com/v1/domains'')"
    and "NewRequest ref_env ref_Client w None ''GET'' ''v1/domains?size=1'' None =
           Inr (ref_GET ''https://api.emailsrvr.com/v1/domains?size=1'')"
    and "NewRequest ref_env ref_Client w None ''GET'' ''v1/domains?offset=1&size=1'' None =
           Inr (ref_GET ''https://api.emailsrvr.com/v1/domains?offset=1&size=1'')"
    and "NewRequest ref_env ref_Client w None ''GET'' ''v1/domains?size=50'' None =
           Inr (ref_GET ''https://api.emailsrvr.com/v1/domains?size=50'')"
  using assms by (simp_all add: NewRequest_eval)

lemma aliases_requests:
  assumes "clock (outside w) = ref_time"
  shows "NewRequest ref_env ref_Client w None ''GET'' ''v1/domains/domain.com/rs/aliases?size=1'' None =
           Inr (ref_GET ''https://api.emailsrvr.com/v1/domains/domain.com/rs/aliases?size=1'')"
    and "NewRequest ref_env ref_Client w None ''GET''
             ''v1/domains/domain.com/rs/aliases?offset=1&size=1'' None =
           Inr (ref_GET ''https://api.emailsrvr.com/v1/domains/domain.com/rs/aliases?offset=1&size=1'')"
  using assms by (simp_all add: NewRequest_eval)

section \<open>Runs of the scripted services\<close>

lemma domains_first_fetch:
  "fetch_page ref_env ref_Client (ref_Decode ''domains'') None domainsBasePath
     \<lparr>Offset = 0, Size = 1\<rparr> (ref_world (reply 200 domains_page1 # rs)) =
   FetchPage (page_of 0 1 2 [''foo.com''])
     (Some (newResponse (ref_response 200 domains_page1
        (ref_GET ''https://api.emailsrvr.com/v1/domains?size=1''))))
     (ref_served (ref_GET ''https://api.emailsrvr.com/v1/domains?size=1'')
        (ref_world (reply 200 domains_page1 # rs)))"
  by (rule ref_fetch_page [where path = "''v1/domains?size=1''" and rs = rs])
     (simp_all add: domains_paths domains_requests domains_page1_decodes ref_world_sel)

lemma aliases_first_fetch:
  "fetch_page ref_env ref_Client (ref_Decode ''aliases'') None
     (rackspaceEmailAliasesBasePath ''domain.com'')
     \<lparr>Offset = 0, Size = 1\<rparr> (ref_world (reply 200 aliases_page1 # rs)) =
   FetchPage (page_of 0 1 2 [''foo''])
     (Some (newResponse (ref_response 200 aliases_page1
        (ref_GET ''https://api.emailsrvr.com/v1/domains/domain.com/rs/aliases?size=1''))))
     (ref_served (ref_GET ''https://api.emailsrvr.com/v1/domains/domain.com/rs/aliases?size=1'')
        (ref_world (reply 200 aliases_page1 # rs)))"
  by (rule ref_fetch_page [where path = "''v1/domains/domain.com/rs/aliases?size=1''" and rs = rs])
     (simp_all add: aliases_paths aliases_requests aliases_page1_decodes ref_world_sel)

lemma domains_second_fetch_fails:
  "fetch_page ref_env ref_Client (ref_Decode ''domains'') None domainsBasePath
     \<lparr>Offset = 1, Size = 1\<rparr>
     (ref_served (ref_GET ''https://api.emailsrvr.com/v1/domains?size=1'')
        (ref_world [reply 200 domains_page1, reply 500 []])) =
   FetchError
     (Some (newResponse (ref_response 500 []
        (ref_GET ''https://api.emailsrvr.com/v1/domains?offset=1&size=1''))))
     (internal_server_error ''https://api.emailsrvr.com/v1/domains?offset=1&size=1'')
     (ref_served (ref_GET ''https://api.emailsrvr.com/v1/domains?offset=1&size=1'')
        (ref_served (ref_GET ''https://api.emailsrvr.com/v1/domains?size=1'')
           (ref_world [reply 200 domains_page1, reply 500 []])))"
  unfolding internal_server_error_def
  by (rule ref_fetch_500 [where path = "''v1/domains?offset=1&size=1''" and rs = "[]"])
     (simp_all add: domains_paths domains_requests ref_world_sel ref_served_sel)

lemma aliases_second_fetch_fails:
  "fetch_page ref_env ref_Client (ref_Decode ''aliases'') None
     (rackspaceEmailAliasesBasePath ''domain.com'') \<lparr>Offset = 1, Size = 1\<rparr>
     (ref_served (ref_GET ''https://api.emailsrvr.com/v1/domains/domain.com/rs/aliases?size=1'')
        (ref_world [reply 200 aliases_page1, reply 500 []])) =
   FetchError
     (Some (newResponse (ref_response 500 []
        (ref_GET ''https://api.emailsrvr.com/v1/domains/domain.com/rs/aliases?offset=1&size=1''))))
     (internal_server_error
        ''https://api.emailsrvr.com/v1/domains/domain.com/rs/aliases?offset=1&size=1'')
     (ref_served (ref_GET ''https://api.emailsrvr.com/v1/domains/domain.com/rs/aliases?offset=1&size=1'')
        (ref_served (ref_GET ''https://api.emailsrvr.com/v1/domains/domain.com/rs/aliases?size=1'')
           (ref_world [reply 200 aliases_page1, reply 500 []])))"
  unfolding internal_server_error_def
  by (rule ref_fetch_500 [where path = "''v1/domains/domain.com/rs/aliases?offset=1&size=1''"
        and rs = "[]"])
     (simp_all add: aliases_paths aliases_requests ref_world_sel ref_served_sel)

lemma domains_prefix_one:
  "pages_prefix (fetch_page ref_env ref_Client (ref_Decode ''domains'') None domainsBasePath)
     (initial_options (Some \<lparr>Offset = 0, Size = 1\<rparr>))
     (ref_world [reply 200 domains_page1, reply 500 []]) [page_of 0 1 2 [''foo.com'']] =
   Some (\<lparr>Offset = 1, Size = 1\<rparr>,
         ref_served (ref_GET ''https://api.emailsrvr.com/v1/domains?size=1'')
           (ref_world [reply 200 domains_page1, reply 500 []]))"
  by (simp add: initial_options_def domains_first_fetch last_page_def next_options_def page_of_def)

lemma aliases_prefix_one:
  "pages_prefix (fetch_page ref_env ref_Client (ref_Decode ''aliases'') None
       (rackspaceEmailAliasesBasePath ''domain.com''))
     (initial_options (Some \<lparr>Offset = 0, Size = 1\<rparr>))
     (ref_world [reply 200 aliases_page1, reply 500 []]) [page_of 0 1 2 [''foo'']] =
   Some (\<lparr>Offset = 1, Size = 1\<rparr>,
         ref_served (ref_GET ''https://api.emailsrvr.com/v1/domains/domain.com/rs/aliases?size=1'')
           (ref_world [reply 200 aliases_page1, reply 500 []]))"
  by (simp add: initial_options_def aliases_first_fetch last_page_def next_options_def page_of_def)

lemma two_domain_pages_run:
  "\<exists>po r w. pages_run (fetch_page ref_env ref_Client (ref_Decode ''domains'') None domainsBasePath)
       (initial_options (Some \<lparr>Offset = 0, Size = 1\<rparr>))
       (ref_world [reply 200 domains_page1, reply 200 domains_page2])
       [page_of 0 1 2 [''foo.com''], page_of 1 1 2 [''bar.com'']] = Some (po, r, w)"
proof -
  let ?w0 = "ref_world [reply 200 domains_page1, reply 200 domains_page2]"
  let ?u1 = "''https://api.emailsrvr.com/v1/domains?size=1''"
  let ?w1 = "ref_served (ref_GET ?u1) ?w0"
  have s1: "fetch_page ref_env ref_Client (ref_Decode ''domains'') None domainsBasePath
              \<lparr>Offset = 0, Size = 1\<rparr> ?w0 =
            FetchPage (page_of 0 1 2 [''foo.com''])
              (Some (newResponse (ref_response 200 domains_page1 (ref_GET ?u1)))) ?w1"
    by (rule domains_first_fetch)
  have s2: "fetch_page ref_env ref_Client (ref_Decode ''domains'') None domainsBasePath
              \<lparr>Offset = 1, Size = 1\<rparr> ?w1 =
            FetchPage (page_of 1 1 2 [''bar.com''])
              (Some (newResponse (ref_response 200 domains_page2
                 (ref_GET ''https://api.emailsrvr.com/v1/domains?offset=1&size=1''))))
              (ref_served (ref_GET ''https://api.emailsrvr.com/v1/domains?offset=1&size=1'') ?w1)"
    by (rule ref_fetch_page [where path = "''v1/domains?offset=1&size=1''" and rs = "[]"])
       (simp_all add: domains_paths domains_requests domains_page2_decodes ref_world_sel
          ref_served_sel)
  show ?thesis
    by (simp add: initial_options_def s1 s2 last_page_def next_options_def page_of_def
        del: One_nat_def)
qed


lemma single_domain_page_run:
  "\<exists>po r w. pages_run (fetch_page ref_env ref_Client (ref_Decode ''domains'') None domainsBasePath)
       (initial_options None) (ref_world [reply 200 domains_single])
       [page_of 0 0 0 [''foo.com'', ''bar.com'']] = Some (po, r, w)"
proof -
  let ?w0 = "ref_world [reply 200 domains_single]"
  let ?u1 = "''https://api.emailsrvr.com/v1/domains?size=50''"
  have s1: "fetch_page ref_env ref_Client (ref_Decode ''domains'') None domainsBasePath
              \<lparr>Offset = 0, Size = 50\<rparr> ?w0 =
            FetchPage (page_of 0 0 0 [''foo.com'', ''bar.com''])
              (Some (newResponse (ref_response 200 domains_single (ref_GET ?u1))))
              (ref_served (ref_GET ?u1) ?w0)"
    by (rule ref_fetch_page [where path = "''v1/domains?size=50''" and rs = "[]"])
       (simp_all add: domains_paths domains_requests domains_single_decodes ref_world_sel)
  show ?thesis
    by (simp add: initial_options_def defaultPageSize_def s1 last_page_def page_of_def)
qed

lemma two_alias_pages_run:
  "\<exists>po r w. pages_run (fetch_page ref_env ref_Client (ref_Decode ''aliases'') None
          (rackspaceEmailAliasesBasePath ''domain.com''))
       (initial_options (Some \<lparr>Offset = 0, Size = 1\<rparr>))
       (ref_world [reply 200 aliases_page1, reply 200 aliases_page2])
       [page_of 0 1 2 [''foo''], page_of 1 1 2 [''bar'']] = Some (po, r, w)"
proof -
  let ?w0 = "ref_world [reply 200 aliases_page1, reply 200 aliases_page2]"
  let ?u1 = "''https://api.emailsrvr.com/v1/domains/domain.com/rs/aliases?size=1''"
  let ?u2 = "''https://api.emailsrvr.com/v1/domains/domain.com/rs/aliases?offset=1&size=1''"
  let ?w1 = "ref_served (ref_GET ?u1) ?w0"
  have s1: "fetch_page ref_env ref_Client (ref_Decode ''aliases'') None
              (rackspaceEmailAliasesBasePath ''domain.com'') \<lparr>Offset = 0, Size = 1\<rparr> ?w0 =
            FetchPage (page_of 0 1 2 [''foo''])
              (Some (newResponse (ref_response 200 aliases_page1 (ref_GET ?u1)))) ?w1"
    by (rule aliases_first_fetch)
  have s2: "fetch_page ref_env ref_Client (ref_Decode ''aliases'') None
              (rackspaceEmailAliasesBasePath ''domain.com'') \<lparr>Offset = 1, Size = 1\<rparr> ?w1 =
            FetchPage (page_of 1 1 2 [''bar''])
              (Some (newResponse (ref_response 200 aliases_page2 (ref_GET ?u2))))
              (ref_served (ref_GET ?u2) ?w1)"
    by (rule ref_fetch_page [where path = "''v1/domains/domain.com/rs/aliases?offset=1&size=1''"
          and rs = "[]"])
       (simp_all add: aliases_paths aliases_requests aliases_page2_decodes ref_world_sel
          ref_served_sel)
  show ?thesis
    by (simp add: initial_options_def s1 s2 last_page_def next_options_def page_of_def
        del: One_nat_def)
qed

lemma tests_return:
  "\<exists>xs r po w. TestRackspaceEmailAliases_Index_MultiplePages = Some (IndexReturn xs r None po w)"
  "\<exists>xs r po w. TestDomains_Index_MultiplePages = Some (IndexReturn xs r None po w)"
proof -
  obtain po3 r3 w3 where
    "pages_run (fetch_page ref_env ref_Client (ref_Decode ''aliases'') None
          (rackspaceEmailAliasesBasePath ''domain.com''))
       (initial_options (Some \<lparr>Offset = 0, Size = 1\<rparr>))
       (ref_world [reply 200 aliases_page1, reply 200 aliases_page2])
       [page_of 0 1 2 [''foo''], page_of 1 1 2 [''bar'']] = Some (po3, r3, w3)"
    using two_alias_pages_run by blast
  from Aliases_Index_run [OF _ this]
  show "\<exists>xs r po w. TestRackspaceEmailAliases_Index_MultiplePages = Some (IndexReturn xs r None po w)"
    by (simp add: TestRackspaceEmailAliases_Index_MultiplePages_def)
  obtain po1 r1 w1 where
    "pages_run (fetch_page ref_env ref_Client (ref_Decode ''domains'') None domainsBasePath)
       (initial_options (Some \<lparr>Offset = 0, Size = 1\<rparr>))
       (ref_world [reply 200 domains_page1, reply 200 domains_page2])
       [page_of 0 1 2 [''foo.com''], page_of 1 1 2 [''bar.com'']] = Some (po1, r1, w1)"
    using two_domain_pages_run by blast
  from Domains_Index_run [OF this]
  show "\<exists>xs r po w. TestDomains_Index_MultiplePages = Some (IndexReturn xs r None po w)"
    by (simp add: TestDomains_Index_MultiplePages_def)
qed

lemma ref_dispatch:
  "limiter_Wait_error ref_env None l n = None"
  "client_Do ref_env ctx req (outside (ref_world [reply code text])) =
     (Inr (ref_response code text req), \<lparr>clock = ref_time, replies = []\<rparr>)"
  "DumpResponse ref_env (ref_response code text req) = None"
  by (simp_all add: ref_env_sel ref_client_Do_def reply_def ref_response_def ref_world_def
      DumpResponse_def)

lemma html_does_not_decode:
  "ref_Decode ''domains'' ''<html>'' new_listRoot = (Some ''invalid character'', new_listRoot)"
  by (simp add: decode_eval)

lemma ref_call_served:
  "do_world (ref_call None ''GET'' (ValueDest new_listRoot) 200 domains_page1) =
     ref_served ((ref_GET ''https://api.emailsrvr.com/v1/domains'')\<lparr>Method := ''GET''\<rparr>)
       (ref_world [reply 200 domains_page1])"
proof -
  let ?req = "(ref_GET ''https://api.emailsrvr.com/v1/domains'')\<lparr>Method := ''GET''\<rparr>"
  have "Do ref_env ref_Client None ?req (ref_Decode ''domains'') (ValueDest new_listRoot)
          (ref_world [reply 200 domains_page1]) =
        Returned (Some (newResponse (ref_response 200 domains_page1 ?req))) None
          (ValueDest (page_of 0 1 2 [''foo.com''])) (ref_served ?req (ref_world [reply 200 domains_page1]))"
    by (rule ref_Do_page [where rs = "[]"]) (simp_all add: ref_world_sel domains_page1_decodes)
  then show ?thesis
    by (simp add: ref_call_def do_world_def)
qed

lemma post_requests:
  "NewRequest ref_env ref_Client (ref_world []) None ''POST'' ''v1/domains/foo.com/rs/aliases/bar''
     (Some [(''aliasEmails'', ''foo@bar.com'')]) =
   Inr ((ref_GET ''https://api.emailsrvr.com/v1/domains/foo.com/rs/aliases/bar'')
          \<lparr>Method := ''POST'',
           Header := [(''Content-Type'', [''application/x-www-form-urlencoded''])] @
                     tl (Header (ref_GET [])),
           Body := ''aliasEmails=foo%40bar.com''\<rparr>)"
  "NewRequest ref_env ref_Client (ref_world []) None ''POST'' ''v1/domains/foo.com/rs/aliases/bar'' None =
   Inr ((ref_GET ''https://api.emailsrvr.com/v1/domains/foo.com/rs/aliases/bar'')
          \<lparr>Method := ''POST'',
           Header := [(''Content-Type'', [''application/x-www-form-urlencoded''])] @
                     tl (Header (ref_GET []))\<rparr>)"
  by (simp_all add: NewRequest_eval ref_world_sel QueryEscape_def escape_byte_def hex_char_def)



lemma not_found_parses:
  "ref_json_parse (content (RespBody not_found)) =
     Some (JObject [(''message'', JString ''not found''), (''request_id'', JString ''abc'')])"
  by (simp add: not_found_def json_eval)

lemma not_found_classified:
  "CheckResponse ref_env not_found =
     (Some \<lparr>Response = Some not_found, Message = ''not found'', RequestID = ''abc''\<rparr>, not_found)"
  by (rule CheckResponse_envelope)
     (simp_all add: ref_env_sel not_found_parses, simp_all add: not_found_def)

lemma Response_null_parses:
  "ref_json_parse (content (RespBody server_error_Response_null)) = Some (JObject [(''Response'', JNull)])"
  by (simp add: server_error_Response_null_def json_eval)




section \<open>Pagination\<close>

text \<open>
  Claim C1. Whatever pages the single-page fetch of \<^verbatim>\<open>Domains.Index\<close> and of
  \<^verbatim>\<open>RackspaceEmailAliases.Index\<close> returns: when the successive fetches, each made
  under the options and in the world its predecessor left, the offset set to size plus
  offset after every page whose total exceeds that sum, return the pages \<open>ps\<close>, and
  the last of them is the first whose total is at most its size plus its offset, then
  the listing returns the items of \<open>ps\<close> in fetch order, each page's items in their
  own order, without error, and has called the transport once per page and not again
  after the last one. For the two-page service of the tests this gives the two items
  in two calls, and for a first page with total at most size plus offset one call.
  The sums and comparisons are those of Go's \<^verbatim>\<open>int\<close>.
\<close>

theorem pagination_collects_pages:
  "(pages_run (fetch_page e c decode ctx domainsBasePath) (initial_options p) w ps = Some (po', r, w') \<longrightarrow>
      Domains_Index e c decode ctx p w =
        Some (IndexReturn (concat (map rootItems ps)) r None (Some po') w') \<and>
      length (sent w') = length (sent w) + length ps) \<and>
   (domain \<noteq> [] \<and>
    pages_run (fetch_page e c decode ctx (rackspaceEmailAliasesBasePath domain)) (initial_options p) w ps
      = Some (po', r, w') \<longrightarrow>
      Aliases_Index e c decode ctx p domain w =
        Some (IndexReturn (concat (map rootItems ps)) None None (Some po') w') \<and>
      length (sent w') = length (sent w) + length ps)"
proof (intro conjI impI)
  assume run: "pages_run (fetch_page e c decode ctx domainsBasePath) (initial_options p) w ps
                 = Some (po', r, w')"
  let ?vs = "\<lparr>v_items = [], v_resp = None, v_err = None, v_opt = initial_options p\<rparr>"
  from run have "pages_run (fetch_page e c decode ctx domainsBasePath) (v_opt ?vs) w ps
                   = Some (po', r, w')"
    by simp
  from Domains_loop_run [OF this]
  show "Domains_Index e c decode ctx p w =
          Some (IndexReturn (concat (map rootItems ps)) r None (Some po') w')"
    by (simp add: Domains_Index_def initial_options_def)
  from pages_run_calls [OF run] show "length (sent w') = length (sent w) + length ps"
    by simp
next
  assume a: "domain \<noteq> [] \<and>
    pages_run (fetch_page e c decode ctx (rackspaceEmailAliasesBasePath domain)) (initial_options p) w ps
      = Some (po', r, w')"
  let ?vs = "\<lparr>v_items = [], v_resp = None, v_err = None, v_opt = initial_options p\<rparr>"
  from a have "pages_run (fetch_page e c decode ctx (rackspaceEmailAliasesBasePath domain))
                 (v_opt ?vs) w ps = Some (po', r, w')"
    by simp
  from Aliases_loop_run [OF this] a
  show "Aliases_Index e c decode ctx p domain w =
          Some (IndexReturn (concat (map rootItems ps)) None None (Some po') w')"
    by (cases domain) (simp_all add: Aliases_Index_def initial_options_def)
  from a pages_run_calls [of e c decode ctx "rackspaceEmailAliasesBasePath domain"]
  show "length (sent w') = length (sent w) + length ps"
    by blast
qed

theorem pagination_collects_pages_witness:
  "ret_items TestDomains_Index_MultiplePages = [''foo.com'', ''bar.com''] \<and>
   length (ret_calls TestDomains_Index_MultiplePages) = 2 \<and>
   ret_items TestDomains_Index = [''foo.com'', ''bar.com''] \<and>
   length (ret_calls TestDomains_Index) = 1 \<and>
   ret_items TestRackspaceEmailAliases_Index_MultiplePages = [''foo'', ''bar''] \<and>
   length (ret_calls TestRackspaceEmailAliases_Index_MultiplePages) = 2"
proof -
  obtain po1 r1 w1 where
    "pages_run (fetch_page ref_env ref_Client (ref_Decode ''domains'') None domainsBasePath)
       (initial_options (Some \<lparr>Offset = 0, Size = 1\<rparr>))
       (ref_world [reply 200 domains_page1, reply 200 domains_page2])
       [page_of 0 1 2 [''foo.com''], page_of 1 1 2 [''bar.com'']] = Some (po1, r1, w1)"
    using two_domain_pages_run by blast
  from pagination_collects_pages [THEN conjunct1, rule_format, OF this]
  have a: "ret_items TestDomains_Index_MultiplePages = [''foo.com'', ''bar.com''] \<and>
           length (ret_calls TestDomains_Index_MultiplePages) = 2"
    by (simp add: TestDomains_Index_MultiplePages_def ret_items_def ret_calls_def page_of_def
        ref_world_sel)
  obtain po2 r2 w2 where
    "pages_run (fetch_page ref_env ref_Client (ref_Decode ''domains'') None domainsBasePath)
       (initial_options None) (ref_world [reply 200 domains_single])
       [page_of 0 0 0 [''foo.com'', ''bar.com'']] = Some (po2, r2, w2)"
    using single_domain_page_run by blast
  from pagination_collects_pages [THEN conjunct1, rule_format, OF this]
  have b: "ret_items TestDomains_Index = [''foo.com'', ''bar.com''] \<and>
           length (ret_calls TestDomains_Index) = 1"
    by (simp add: TestDomains_Index_def ret_items_def ret_calls_def page_of_def ref_world_sel)
  obtain po3 r3 w3 where
    "pages_run (fetch_page ref_env ref_Client (ref_Decode ''aliases'') None
          (rackspaceEmailAliasesBasePath ''domain.com''))
       (initial_options (Some \<lparr>Offset = 0, Size = 1\<rparr>))
       (ref_world [reply 200 aliases_page1, reply 200 aliases_page2])
       [page_of 0 1 2 [''foo''], page_of 1 1 2 [''bar'']] = Some (po3, r3, w3)"
    using two_alias_pages_run by blast
  then have "''domain.com'' \<noteq> [] \<and>
     pages_run (fetch_page ref_env ref_Client (ref_Decode ''aliases'') None
          (rackspaceEmailAliasesBasePath ''domain.com''))
       (initial_options (Some \<lparr>Offset = 0, Size = 1\<rparr>))
       (ref_world [reply 200 aliases_page1, reply 200 aliases_page2])
       [page_of 0 1 2 [''foo''], page_of 1 1 2 [''bar'']] = Some (po3, r3, w3)"
    by simp
  from pagination_collects_pages [THEN conjunct2, rule_format, OF this]
  have c: "ret_items TestRackspaceEmailAliases_Index_MultiplePages = [''foo'', ''bar''] \<and>
           length (ret_calls TestRackspaceEmailAliases_Index_MultiplePages) = 2"
    by (simp add: TestRackspaceEmailAliases_Index_MultiplePages_def ret_items_def ret_calls_def
        page_of_def ref_world_sel)
  from a b c show ?thesis by blast
qed

text \<open>
  Claim C2 (corrected). When a page fetch of \<^verbatim>\<open>Domains.Index\<close> or of
  \<^verbatim>\<open>RackspaceEmailAliases.Index\<close> returns an error, after any number of pages that
  were fetched and were not the last, the listing stops at that fetch: it returns
  the error, the response of the failed call if \<^verbatim>\<open>Do\<close> returned one, and a \<^verbatim>\<open>nil\<close>
  slice of items. The items of the earlier pages are not returned.
\<close>

theorem page_error_drops_items:
  "(pages_prefix (fetch_page e c decode ctx domainsBasePath) (initial_options p) w ps = Some (po1, w1) \<and>
    fetch_page e c decode ctx domainsBasePath po1 w1 = FetchError r x w2 \<longrightarrow>
      Domains_Index e c decode ctx p w = Some (IndexReturn [] r (Some x) (Some po1) w2)) \<and>
   (domain \<noteq> [] \<and>
    pages_prefix (fetch_page e c decode ctx (rackspaceEmailAliasesBasePath domain)) (initial_options p) w ps
      = Some (po1, w1) \<and>
    fetch_page e c decode ctx (rackspaceEmailAliasesBasePath domain) po1 w1 = FetchError r x w2 \<longrightarrow>
      Aliases_Index e c decode ctx p domain w = Some (IndexReturn [] r (Some x) (Some po1) w2))"
proof (intro conjI impI)
  assume a: "pages_prefix (fetch_page e c decode ctx domainsBasePath) (initial_options p) w ps
               = Some (po1, w1) \<and>
             fetch_page e c decode ctx domainsBasePath po1 w1 = FetchError r x w2"
  let ?vs = "\<lparr>v_items = [], v_resp = None, v_err = None, v_opt = initial_options p\<rparr>"
  from a have "pages_prefix (fetch_page e c decode ctx domainsBasePath) (v_opt ?vs) w ps = Some (po1, w1)"
    by simp
  from Domains_loop_abort [OF this] a
  show "Domains_Index e c decode ctx p w = Some (IndexReturn [] r (Some x) (Some po1) w2)"
    by (simp add: Domains_Index_def initial_options_def)
next
  let ?f = "fetch_page e c decode ctx (rackspaceEmailAliasesBasePath domain)"
  assume a: "domain \<noteq> [] \<and> pages_prefix ?f (initial_options p) w ps = Some (po1, w1) \<and>
             ?f po1 w1 = FetchError r x w2"
  let ?vs = "\<lparr>v_items = [], v_resp = None, v_err = None, v_opt = initial_options p\<rparr>"
  from a have "pages_prefix ?f (v_opt ?vs) w ps = Some (po1, w1)"
    by simp
  from Aliases_loop_abort [OF this] a
  show "Aliases_Index e c decode ctx p domain w = Some (IndexReturn [] r (Some x) (Some po1) w2)"
    by (cases domain) (simp_all add: Aliases_Index_def initial_options_def)
qed

theorem page_error_drops_items_witness:
  "returns TestDomains_Index_SecondPageFails \<and>
   ret_items TestDomains_Index_SecondPageFails = [] \<and>
   ret_err TestDomains_Index_SecondPageFails =
     Some (internal_server_error ''https://api.emailsrvr.com/v1/domains?offset=1&size=1'') \<and>
   length (ret_calls TestDomains_Index_SecondPageFails) = 2 \<and>
   returns TestAliases_Index_SecondPageFails \<and>
   ret_items TestAliases_Index_SecondPageFails = [] \<and>
   ret_err TestAliases_Index_SecondPageFails =
     Some (internal_server_error
             ''https://api.emailsrvr.com/v1/domains/domain.com/rs/aliases?offset=1&size=1'') \<and>
   length (ret_calls TestAliases_Index_SecondPageFails) = 2"
proof -
  from page_error_drops_items [THEN conjunct1, rule_format,
      OF conjI [OF domains_prefix_one domains_second_fetch_fails]]
  have a: "returns TestDomains_Index_SecondPageFails \<and>
     ret_items TestDomains_Index_SecondPageFails = [] \<and>
     ret_err TestDomains_Index_SecondPageFails =
       Some (internal_server_error ''https://api.emailsrvr.com/v1/domains?offset=1&size=1'') \<and>
     length (ret_calls TestDomains_Index_SecondPageFails) = 2"
    by (simp add: TestDomains_Index_SecondPageFails_def returns_def ret_items_def ret_err_def
        ret_calls_def ref_served_sel ref_world_sel)
  have "''domain.com'' \<noteq> []" by simp
  from page_error_drops_items [THEN conjunct2, rule_format,
      OF conjI [OF this conjI [OF aliases_prefix_one aliases_second_fetch_fails]]]
  have b: "returns TestAliases_Index_SecondPageFails \<and>
     ret_items TestAliases_Index_SecondPageFails = [] \<and>
     ret_err TestAliases_Index_SecondPageFails =
       Some (internal_server_error
               ''https://api.emailsrvr.com/v1/domains/domain.com/rs/aliases?offset=1&size=1'') \<and>
     length (ret_calls TestAliases_Index_SecondPageFails) = 2"
    by (simp add: TestAliases_Index_SecondPageFails_def returns_def ret_items_def ret_err_def
        ret_calls_def ref_served_sel ref_world_sel)
  from a b show ?thesis by blast
qed

text \<open>The claim as it was stated fails on the two-page service whose second page is
  answered with status 500: the first page was fetched with its item, and the
  listing returns the error without that item.\<close>

theorem page_error_keeps_items_counterexample:
  "fetched_items (fetch_page ref_env ref_Client (ref_Decode ''domains'') None domainsBasePath
       \<lparr>Offset = 0, Size = 1\<rparr> (ref_world [reply 200 domains_page1, reply 500 []])) = [''foo.com''] \<and>
   ret_err TestDomains_Index_SecondPageFails =
     Some (internal_server_error ''https://api.emailsrvr.com/v1/domains?offset=1&size=1'') \<and>
   ret_items TestDomains_Index_SecondPageFails \<noteq> [''foo.com'']"
proof -
  let ?vs = "\<lparr>v_items = [], v_resp = None, v_err = None, v_opt = \<lparr>Offset = 0, Size = 1\<rparr>\<rparr>"
  have "pages_prefix (fetch_page ref_env ref_Client (ref_Decode ''domains'') None domainsBasePath)
          (v_opt ?vs) (ref_world [reply 200 domains_page1, reply 500 []]) [page_of 0 1 2 [''foo.com'']] =
        Some (\<lparr>Offset = 1, Size = 1\<rparr>,
          ref_served (ref_GET ''https://api.emailsrvr.com/v1/domains?size=1'')
            (ref_world [reply 200 domains_page1, reply 500 []]))"
    using domains_prefix_one by (simp add: initial_options_def)
  from Domains_loop_abort [OF this domains_second_fetch_fails]
  show ?thesis
    by (simp add: TestDomains_Index_SecondPageFails_def Domains_Index_def ret_items_def ret_err_def
        fetched_items_def domains_first_fetch page_of_def)
qed

text \<open>
  Claim C10. Every call of \<^verbatim>\<open>RackspaceEmailAliases.Index\<close> that returns without an
  error returns a \<^verbatim>\<open>nil\<close> response: the response of \<^verbatim>\<open>Do\<close> is bound to a variable
  of the loop body, and the outer variable, which is the one returned, is never
  assigned. \<^verbatim>\<open>Domains.Index\<close> assigns the outer variable and returns a response.
\<close>

theorem aliases_response_nil:
  "(Aliases_Index e c decode ctx p domain w = Some (IndexReturn xs r None po w') \<longrightarrow> r = None) \<and>
   (Domains_Index e c decode ctx p w = Some (IndexReturn xs r None po w') \<longrightarrow>
      (\<exists>resp. r = Some resp))"
proof (intro conjI impI)
  assume a: "Aliases_Index e c decode ctx p domain w = Some (IndexReturn xs r None po w')"
  show "r = None"
  proof (cases "length domain < 1")
    case True
    with a show ?thesis by (simp add: Aliases_Index_def)
  next
    case False
    with a have "Aliases_Index_loop e c decode ctx domain
        (\<lparr>v_items = [], v_resp = None, v_err = None,
          v_opt = (case p of None \<Rightarrow> \<lparr>Offset = 0, Size = defaultPageSize\<rparr> | Some po \<Rightarrow> po)\<rparr>, w)
        = Some (IndexReturn xs r None po w')"
      by (simp add: Aliases_Index_def)
    from Aliases_loop_resp [OF this] show ?thesis by simp
  qed
next
  assume "Domains_Index e c decode ctx p w = Some (IndexReturn xs r None po w')"
  then have "Domains_Index_loop e c decode ctx
        (\<lparr>v_items = [], v_resp = None, v_err = None,
          v_opt = (case p of None \<Rightarrow> \<lparr>Offset = 0, Size = defaultPageSize\<rparr> | Some po \<Rightarrow> po)\<rparr>, w)
        = Some (IndexReturn xs r None po w')"
    by (simp add: Domains_Index_def)
  from Domains_loop_resp [OF this] show "\<exists>resp. r = Some resp" by auto
qed

theorem aliases_response_nil_witness:
  "returns TestRackspaceEmailAliases_Index_MultiplePages \<and>
   ret_err TestRackspaceEmailAliases_Index_MultiplePages = None \<and>
   ret_resp TestRackspaceEmailAliases_Index_MultiplePages = None \<and>
   returns TestDomains_Index_MultiplePages \<and>
   ret_err TestDomains_Index_MultiplePages = None \<and>
   ret_resp TestDomains_Index_MultiplePages \<noteq> None"
proof -
  obtain xs r po w where
    a: "TestRackspaceEmailAliases_Index_MultiplePages = Some (IndexReturn xs r None po w)"
    using tests_return(1) by blast
  then have "Aliases_Index ref_env ref_Client (ref_Decode ''aliases'') None
      (Some \<lparr>Offset = 0, Size = 1\<rparr>) ''domain.com''
      (ref_world [reply 200 aliases_page1, reply 200 aliases_page2]) = Some (IndexReturn xs r None po w)"
    by (simp add: TestRackspaceEmailAliases_Index_MultiplePages_def)
  from aliases_response_nil [THEN conjunct1, rule_format, OF this] have "r = None" .
  then have 1: "returns TestRackspaceEmailAliases_Index_MultiplePages \<and>
     ret_err TestRackspaceEmailAliases_Index_MultiplePages = None \<and>
     ret_resp TestRackspaceEmailAliases_Index_MultiplePages = None"
    unfolding a by (simp add: returns_def ret_err_def ret_resp_def)
  obtain ys q qo v where
    b: "TestDomains_Index_MultiplePages = Some (IndexReturn ys q None qo v)"
    using tests_return(2) by blast
  then have "Domains_Index ref_env ref_Client (ref_Decode ''domains'') None
      (Some \<lparr>Offset = 0, Size = 1\<rparr>)
      (ref_world [reply 200 domains_page1, reply 200 domains_page2]) = Some (IndexReturn ys q None qo v)"
    by (simp add: TestDomains_Index_MultiplePages_def)
  from aliases_response_nil [THEN conjunct2, rule_format, OF this] have "\<exists>resp. q = Some resp" .
  then have 2: "returns TestDomains_Index_MultiplePages \<and>
     ret_err TestDomains_Index_MultiplePages = None \<and>
     ret_resp TestDomains_Index_MultiplePages \<noteq> None"
    unfolding b by (auto simp: returns_def ret_err_def ret_resp_def)
  from 1 2 show ?thesis by blast
qed

section \<open>The dispatcher\<close>

text \<open>
  Claim C4. Let a request pass its limiter, the transport answer with a response and
  the dump succeed. If the status is in the 200 range: with no destination \<^verbatim>\<open>Do\<close>
  returns the response and no error; with a destination that is an \<^verbatim>\<open>io.Writer\<close> and
  accepts the write, the whole body is appended to it as it is, whatever the decoder
  would do; with any other destination the result is that of decoding the body into
  it, and a decoding failure is returned as an error of \<^verbatim>\<open>encoding/json\<close>, which is not
  an \<^verbatim>\<open>ErrorResponse\<close>. If the status is outside the 200 range the destination is left
  as it was and the error is an \<^verbatim>\<open>ErrorResponse\<close>.
\<close>

theorem Do_destination:
  "limiter_Wait_error e ctx (if Method req = ''GET'' then getLimiter w else putPostDeleteLimiter w)
      (outside w) = None \<and>
   client_Do e ctx req (outside w) = (Inr resp, n') \<and> DumpResponse e resp = None \<longrightarrow>
   (200 \<le> StatusCode resp \<and> StatusCode resp \<le> 299 \<longrightarrow>
      (do_resp (Do e c ctx req decode NoDest w) = Some (newResponse resp) \<and>
       do_err (Do e c ctx req decode NoDest w) = None \<and>
       do_dest (Do e c ctx req decode NoDest w) = NoDest) \<and>
      (write_error wr = None \<longrightarrow>
         do_resp (Do e c ctx req decode (WriterDest wr) w) = Some (newResponse resp) \<and>
         do_err (Do e c ctx req decode (WriterDest wr) w) = None \<and>
         do_dest (Do e c ctx req decode (WriterDest wr) w) =
           WriterDest (wr\<lparr>written := written wr @ content (RespBody resp)\<rparr>)) \<and>
      do_dest (Do e c ctx req decode (ValueDest y) w) =
        ValueDest (snd (decode (content (RespBody resp)) y)) \<and>
      (fst (decode (content (RespBody resp)) y) = None \<longrightarrow>
         do_resp (Do e c ctx req decode (ValueDest y) w) = Some (newResponse resp) \<and>
         do_err (Do e c ctx req decode (ValueDest y) w) = None) \<and>
      (\<forall>m. fst (decode (content (RespBody resp)) y) = Some m \<longrightarrow>
         do_resp (Do e c ctx req decode (ValueDest y) w) = None \<and>
         do_err (Do e c ctx req decode (ValueDest y) w) = Some (JSONError m))) \<and>
   (\<not> (200 \<le> StatusCode resp \<and> StatusCode resp \<le> 299) \<longrightarrow>
      do_dest (Do e c ctx req decode v w) = v \<and>
      (\<exists>er. do_err (Do e c ctx req decode v w) = Some (APIError er)))"
proof (intro impI)
  assume a: "limiter_Wait_error e ctx
       (if Method req = ''GET'' then getLimiter w else putPostDeleteLimiter w) (outside w) = None \<and>
     client_Do e ctx req (outside w) = (Inr resp, n') \<and> DumpResponse e resp = None"
  note cl = Do_classify [OF a [THEN conjunct1] a [THEN conjunct2, THEN conjunct1]
      a [THEN conjunct2, THEN conjunct2]]
  show "(200 \<le> StatusCode resp \<and> StatusCode resp \<le> 299 \<longrightarrow>
      (do_resp (Do e c ctx req decode NoDest w) = Some (newResponse resp) \<and>
       do_err (Do e c ctx req decode NoDest w) = None \<and>
       do_dest (Do e c ctx req decode NoDest w) = NoDest) \<and>
      (write_error wr = None \<longrightarrow>
         do_resp (Do e c ctx req decode (WriterDest wr) w) = Some (newResponse resp) \<and>
         do_err (Do e c ctx req decode (WriterDest wr) w) = None \<and>
         do_dest (Do e c ctx req decode (WriterDest wr) w) =
           WriterDest (wr\<lparr>written := written wr @ content (RespBody resp)\<rparr>)) \<and>
      do_dest (Do e c ctx req decode (ValueDest y) w) =
        ValueDest (snd (decode (content (RespBody resp)) y)) \<and>
      (fst (decode (content (RespBody resp)) y) = None \<longrightarrow>
         do_resp (Do e c ctx req decode (ValueDest y) w) = Some (newResponse resp) \<and>
         do_err (Do e c ctx req decode (ValueDest y) w) = None) \<and>
      (\<forall>m. fst (decode (content (RespBody resp)) y) = Some m \<longrightarrow>
         do_resp (Do e c ctx req decode (ValueDest y) w) = None \<and>
         do_err (Do e c ctx req decode (ValueDest y) w) = Some (JSONError m))) \<and>
   (\<not> (200 \<le> StatusCode resp \<and> StatusCode resp \<le> 299) \<longrightarrow>
      do_dest (Do e c ctx req decode v w) = v \<and>
      (\<exists>er. do_err (Do e c ctx req decode v w) = Some (APIError er)))"
  proof (cases "200 \<le> StatusCode resp \<and> StatusCode resp \<le> 299")
    case True
    from CheckResponse_success [OF True] have ck: "CheckResponse e resp = (None, resp)" .
    obtain b y' where d: "decode (content (RespBody resp)) y = (b, y')"
      by (cases "decode (content (RespBody resp)) y")
    from cl [of c decode NoDest] ck
    have 1: "do_resp (Do e c ctx req decode NoDest w) = Some (newResponse resp) \<and>
       do_err (Do e c ctx req decode NoDest w) = None \<and>
       do_dest (Do e c ctx req decode NoDest w) = NoDest"
      by (auto simp: Let_def do_resp_def do_err_def do_dest_def)
    from cl [of c decode "WriterDest wr"] ck
    have 2: "write_error wr = None \<longrightarrow>
         do_resp (Do e c ctx req decode (WriterDest wr) w) = Some (newResponse resp) \<and>
         do_err (Do e c ctx req decode (WriterDest wr) w) = None \<and>
         do_dest (Do e c ctx req decode (WriterDest wr) w) =
           WriterDest (wr\<lparr>written := written wr @ content (RespBody resp)\<rparr>)"
      by (auto simp: Let_def io_Copy_def do_resp_def do_err_def do_dest_def)
    from cl [of c decode "ValueDest y"] ck d
    have 3: "do_dest (Do e c ctx req decode (ValueDest y) w) =
        ValueDest (snd (decode (content (RespBody resp)) y)) \<and>
      (fst (decode (content (RespBody resp)) y) = None \<longrightarrow>
         do_resp (Do e c ctx req decode (ValueDest y) w) = Some (newResponse resp) \<and>
         do_err (Do e c ctx req decode (ValueDest y) w) = None) \<and>
      (\<forall>m. fst (decode (content (RespBody resp)) y) = Some m \<longrightarrow>
         do_resp (Do e c ctx req decode (ValueDest y) w) = None \<and>
         do_err (Do e c ctx req decode (ValueDest y) w) = Some (JSONError m))"
      by (cases b) (auto simp: Let_def do_resp_def do_err_def do_dest_def)
    from True 1 2 3 show ?thesis by blast
  next
    case False
    from CheckResponse_error [OF False] obtain er resp' where
      "CheckResponse e resp = (Some er, resp')" by blast
    with cl [of c decode v] False show ?thesis
      by (auto simp: Let_def do_err_def do_dest_def)
  qed
qed

theorem Do_destination_witness:
  "do_err (ref_call None ''GET'' NoDest 200 domains_page1) = None \<and>
   do_dest (ref_call None ''GET'' (WriterDest \<lparr>written = [], write_error = None\<rparr>) 200 domains_page1) =
     WriterDest \<lparr>written = domains_page1, write_error = None\<rparr> \<and>
   do_dest (ref_call None ''GET'' (ValueDest new_listRoot) 200 domains_page1) =
     ValueDest (page_of 0 1 2 [''foo.com'']) \<and>
   do_err (ref_call None ''GET'' (ValueDest new_listRoot) 200 domains_page1) = None \<and>
   do_err (ref_call None ''GET'' (ValueDest new_listRoot) 200 ''<html>'') =
     Some (JSONError ''invalid character'') \<and>
   do_dest (ref_call None ''GET'' (ValueDest new_listRoot) 500 []) = ValueDest new_listRoot \<and>
   (\<exists>er. do_err (ref_call None ''GET'' (ValueDest new_listRoot) 500 []) = Some (APIError er))"
proof -
  let ?req = "(ref_GET ''https://api.emailsrvr.com/v1/domains'')\<lparr>Method := ''GET''\<rparr>"
  have h: "limiter_Wait_error ref_env None
        (if Method ?req = ''GET'' then getLimiter (ref_world [reply code t])
         else putPostDeleteLimiter (ref_world [reply code t]))
        (outside (ref_world [reply code t])) = None \<and>
      client_Do ref_env None ?req (outside (ref_world [reply code t])) =
        (Inr (ref_response code t ?req), \<lparr>clock = ref_time, replies = []\<rparr>) \<and>
      DumpResponse ref_env (ref_response code t ?req) = None" for code t
    by (simp add: ref_dispatch)
  have st: "StatusCode (ref_response code t ?req) = code"
    and bd: "content (RespBody (ref_response code t ?req)) = t" for code t
    by (simp_all add: ref_response_def)
  note d = Do_destination [where e = ref_env and c = ref_Client and ctx = None and req = ?req
      and decode = "ref_Decode ''domains''" and n' = "\<lparr>clock = ref_time, replies = []\<rparr>"]
  from d [where w = "ref_world [reply 200 domains_page1]"
      and resp = "ref_response 200 domains_page1 ?req"
      and wr = "\<lparr>written = [], write_error = None\<rparr>" and y = new_listRoot]
    h [of 200 domains_page1]
  have 1: "do_err (ref_call None ''GET'' NoDest 200 domains_page1) = None \<and>
   do_dest (ref_call None ''GET'' (WriterDest \<lparr>written = [], write_error = None\<rparr>) 200 domains_page1) =
     WriterDest \<lparr>written = domains_page1, write_error = None\<rparr> \<and>
   do_dest (ref_call None ''GET'' (ValueDest new_listRoot) 200 domains_page1) =
     ValueDest (page_of 0 1 2 [''foo.com'']) \<and>
   do_err (ref_call None ''GET'' (ValueDest new_listRoot) 200 domains_page1) = None"
    by (simp add: ref_call_def st bd domains_page1_decodes)
  from d [where w = "ref_world [reply 200 ''<html>'']" and resp = "ref_response 200 ''<html>'' ?req"
      and y = new_listRoot]
    h [of 200 "''<html>''"]
  have 2: "do_err (ref_call None ''GET'' (ValueDest new_listRoot) 200 ''<html>'') =
     Some (JSONError ''invalid character'')"
    by (simp add: ref_call_def st bd html_does_not_decode)
  from d [where w = "ref_world [reply 500 []]" and resp = "ref_response 500 [] ?req"
      and v = "ValueDest new_listRoot"]
    h [of 500 "[]"]
  have 3: "do_dest (ref_call None ''GET'' (ValueDest new_listRoot) 500 []) = ValueDest new_listRoot \<and>
   (\<exists>er. do_err (ref_call None ''GET'' (ValueDest new_listRoot) 500 []) = Some (APIError er))"
    by (simp add: ref_call_def st)
  from 1 2 3 show ?thesis by blast
qed

text \<open>
  Claim C5. \<^verbatim>\<open>Do\<close> chooses the limiter by the method alone: a request whose method is
  \<^verbatim>\<open>GET\<close> waits on \<^verbatim>\<open>getLimiter\<close> and leaves \<^verbatim>\<open>putPostDeleteLimiter\<close> alone, a request
  with any other method does the opposite; a wait that succeeds takes one token, and
  a request that reaches the transport has taken exactly one token in all.
\<close>

theorem Do_limiter_by_method:
  "(Method req = ''GET'' \<longrightarrow>
      taken (getLimiter (do_world (Do e c ctx req decode v w))) =
        (if limiter_Wait_error e ctx (getLimiter w) (outside w) = None
         then Suc (taken (getLimiter w)) else taken (getLimiter w)) \<and>
      taken (putPostDeleteLimiter (do_world (Do e c ctx req decode v w))) =
        taken (putPostDeleteLimiter w)) \<and>
   (Method req \<noteq> ''GET'' \<longrightarrow>
      taken (putPostDeleteLimiter (do_world (Do e c ctx req decode v w))) =
        (if limiter_Wait_error e ctx (putPostDeleteLimiter w) (outside w) = None
         then Suc (taken (putPostDeleteLimiter w)) else taken (putPostDeleteLimiter w)) \<and>
      taken (getLimiter (do_world (Do e c ctx req decode v w))) = taken (getLimiter w)) \<and>
   (sent (do_world (Do e c ctx req decode v w)) = sent w @ [req] \<longrightarrow>
      taken (getLimiter (do_world (Do e c ctx req decode v w))) +
      taken (putPostDeleteLimiter (do_world (Do e c ctx req decode v w))) =
        Suc (taken (getLimiter w) + taken (putPostDeleteLimiter w)))"
  by (auto simp: Do_def Wait_def DoRequestWithClient_def do_world_def
      split: prod.splits option.splits sum.splits dest.splits)

theorem Do_limiter_by_method_witness:
  "taken (getLimiter (do_world (ref_call None ''GET'' (ValueDest new_listRoot) 200 domains_page1))) = 1 \<and>
   taken (putPostDeleteLimiter
     (do_world (ref_call None ''GET'' (ValueDest new_listRoot) 200 domains_page1))) = 0 \<and>
   taken (getLimiter (do_world (ref_call None ''POST'' NoDest 200 []))) = 0 \<and>
   taken (putPostDeleteLimiter (do_world (ref_call None ''POST'' NoDest 200 []))) = 1 \<and>
   taken (getLimiter (do_world (ref_call None ''DELETE'' NoDest 200 []))) = 0 \<and>
   taken (putPostDeleteLimiter (do_world (ref_call None ''DELETE'' NoDest 200 []))) = 1 \<and>
   length (sent (do_world (ref_call None ''GET'' (ValueDest new_listRoot) 200 domains_page1))) = 1"
proof -
  let ?u = "ref_GET ''https://api.emailsrvr.com/v1/domains''"
  note t = Do_limiter_by_method [where e = ref_env and c = ref_Client and ctx = None
      and decode = "ref_Decode ''domains''"]
  from t [where req = "?u\<lparr>Method := ''GET''\<rparr>" and v = "ValueDest new_listRoot"
      and w = "ref_world [reply 200 domains_page1]"]
  have 1: "taken (getLimiter
      (do_world (ref_call None ''GET'' (ValueDest new_listRoot) 200 domains_page1))) = 1 \<and>
    taken (putPostDeleteLimiter
      (do_world (ref_call None ''GET'' (ValueDest new_listRoot) 200 domains_page1))) = 0"
    by (simp add: ref_call_def ref_env_sel ref_world_sel)
  from t [where req = "?u\<lparr>Method := ''POST''\<rparr>" and v = NoDest and w = "ref_world [reply 200 []]"]
  have 2: "taken (getLimiter (do_world (ref_call None ''POST'' NoDest 200 []))) = 0 \<and>
    taken (putPostDeleteLimiter (do_world (ref_call None ''POST'' NoDest 200 []))) = 1"
    by (simp add: ref_call_def ref_env_sel ref_world_sel)
  from t [where req = "?u\<lparr>Method := ''DELETE''\<rparr>" and v = NoDest
      and w = "ref_world [reply 200 []]"]
  have 3: "taken (getLimiter (do_world (ref_call None ''DELETE'' NoDest 200 []))) = 0 \<and>
    taken (putPostDeleteLimiter (do_world (ref_call None ''DELETE'' NoDest 200 []))) = 1"
    by (simp add: ref_call_def ref_env_sel ref_world_sel)
  have 4: "length (sent (do_world (ref_call None ''GET'' (ValueDest new_listRoot) 200 domains_page1))) = 1"
    by (simp add: ref_call_served ref_served_sel ref_world_sel)
  from 1 2 3 4 show ?thesis by blast
qed

text \<open>
  Claim C6. When the wait on the limiter chosen for the request ends with the error of
  the context, \<^verbatim>\<open>Do\<close> returns that error and nothing else has happened: the world is
  the one before the call, so the transport was not called and no token was taken,
  and the destination is untouched.
\<close>

theorem Do_cancelled_wait:
  "limiter_Wait_error e ctx (if Method req = ''GET'' then getLimiter w else putPostDeleteLimiter w)
      (outside w) = Some x \<longrightarrow>
   Do e c ctx req decode v w = Returned None (Some (WaitError x)) v w"
  by (simp add: Do_def Wait_def)


theorem Do_cancelled_wait_witness:
  "ref_call (Some ''context canceled'') ''GET'' (ValueDest new_listRoot) 200 domains_page1 =
     Returned None (Some (WaitError ''context canceled'')) (ValueDest new_listRoot)
       (ref_world [reply 200 domains_page1]) \<and>
   sent (do_world (ref_call (Some ''context canceled'') ''GET'' (ValueDest new_listRoot) 200
     domains_page1)) = [] \<and>
   ref_call (Some ''context deadline exceeded'') ''POST'' NoDest 200 [] =
     Returned None (Some (WaitError ''context deadline exceeded'')) NoDest (ref_world [reply 200 []])"
proof -
  let ?u = "ref_GET ''https://api.emailsrvr.com/v1/domains''"
  have 1: "ref_call (Some ''context canceled'') ''GET'' (ValueDest new_listRoot) 200 domains_page1 =
     Returned None (Some (WaitError ''context canceled'')) (ValueDest new_listRoot)
       (ref_world [reply 200 domains_page1])"
    unfolding ref_call_def
    by (rule Do_cancelled_wait [THEN mp]) (simp add: ref_env_sel)
  have 2: "ref_call (Some ''context deadline exceeded'') ''POST'' NoDest 200 [] =
     Returned None (Some (WaitError ''context deadline exceeded'')) NoDest (ref_world [reply 200 []])"
    unfolding ref_call_def
    by (rule Do_cancelled_wait [THEN mp]) (simp add: ref_env_sel)
  from 1 2 show ?thesis
    by (simp add: do_world_def ref_world_sel)
qed

section \<open>Requests\<close>

text \<open>
  Claim C7. \<^verbatim>\<open>sign\<close> adds to the request a value of the header \<^verbatim>\<open>X-Api-Signature\<close> that is
  the identity, a colon, the timestamp, a colon, and the base64 encoding of the SHA-1
  hash of identity, user agent, timestamp and secret in this order, the user agent
  being the request's \<^verbatim>\<open>User-Agent\<close> header; a request built by \<^verbatim>\<open>NewRequest\<close> carries
  exactly this one value, computed from the client's user agent. The value is a
  function of these inputs. The timestamp of a calendar reading has fourteen decimal
  digits, which read as a number are year, month, day, hour, minute and second, the
  year on four digits and the others on two. The hash and the encoding are the
  library's, taken as parameters.
\<close>

theorem request_signature:
  "Header_Values ''X-Api-Signature'' (Header (sign e c w req)) =
     Header_Values ''X-Api-Signature'' (Header req) @
     [userKey c @ '':'' @ Format_20060102150405 (time_Now e (outside w)) @ '':'' @
      base64_EncodeToString e
        (sha1_Sum e (userKey c @ Header_Get ''User-Agent'' (Header req) @
           Format_20060102150405 (time_Now e (outside w)) @ secretKey c))] \<and>
   (NewRequest e c w ctx method urlStr body = Inr r \<longrightarrow>
      Header_Values ''X-Api-Signature'' (Header r) =
        [userKey c @ '':'' @ Format_20060102150405 (time_Now e (outside w)) @ '':'' @
         base64_EncodeToString e
           (sha1_Sum e (userKey c @ UserAgent c @
              Format_20060102150405 (time_Now e (outside w)) @ secretKey c))] \<and>
      Header_Get ''User-Agent'' (Header r) = UserAgent c) \<and>
   (calendar t \<longrightarrow>
      length (Format_20060102150405 t) = 14 \<and> list_all is_digit (Format_20060102150405 t) \<and>
      digits_value (Format_20060102150405 t) =
        nat (Year t) * 10 ^ 10 + Month t * 10 ^ 8 + Day t * 10 ^ 6 + Hour t * 10 ^ 4 +
        Minute t * 10 ^ 2 + Second t)"
proof -
  have 1: "Header_Values ''X-Api-Signature'' (Header (sign e c w req)) =
     Header_Values ''X-Api-Signature'' (Header req) @
     [userKey c @ '':'' @ Format_20060102150405 (time_Now e (outside w)) @ '':'' @
      base64_EncodeToString e
        (sha1_Sum e (userKey c @ Header_Get ''User-Agent'' (Header req) @
           Format_20060102150405 (time_Now e (outside w)) @ secretKey c))]"
    using sign_Header [of e c w req] by (simp add: signature_def)
  have 2: "NewRequest e c w ctx method urlStr body = Inr r \<longrightarrow>
      Header_Values ''X-Api-Signature'' (Header r) =
        [userKey c @ '':'' @ Format_20060102150405 (time_Now e (outside w)) @ '':'' @
         base64_EncodeToString e
           (sha1_Sum e (userKey c @ UserAgent c @
              Format_20060102150405 (time_Now e (outside w)) @ secretKey c))] \<and>
      Header_Get ''User-Agent'' (Header r) = UserAgent c"
    using NewRequest_Header(3,4) [of e c w ctx "method" "urlStr" body r]
    by (auto simp: signature_def Header_Get_Values)
  from 1 2 Format_layout [of t] Format_value [of t] show ?thesis
    by blast
qed

theorem request_signature_witness:
  "Header_Values ''X-Api-Signature''
     (Header (sign ref_env ref_Client (ref_world [])
        \<lparr>Method = ''GET'', URL = ''https://api.emailsrvr.com/v1/domains'',
         Header = [(''User-Agent'', [''reago/1.0''])], Body = []\<rparr>)) =
     [''key:20190309080706:base64(sha1(keyreago/1.020190309080706secret))''] \<and>
   NewRequest ref_env ref_Client (ref_world []) None ''GET'' ''v1/domains'' None =
     Inr (ref_GET ''https://api.emailsrvr.com/v1/domains'') \<and>
   Header_Values ''X-Api-Signature'' (Header (ref_GET ''https://api.emailsrvr.com/v1/domains'')) =
     [''key:20190309080706:base64(sha1(keyreago/1.020190309080706secret))''] \<and>
   calendar ref_time \<and>
   Format_20060102150405 ref_time = ''20190309080706'' \<and>
   digits_value (Format_20060102150405 ref_time) = 20190309080706"
proof -
  have n: "NewRequest ref_env ref_Client (ref_world []) None ''GET'' ''v1/domains'' None =
     Inr (ref_GET ''https://api.emailsrvr.com/v1/domains'')"
    by (rule domains_requests) (simp add: ref_world_sel)
  have cal: "calendar ref_time"
    by (simp add: calendar_def ref_time_def)
  note t = request_signature [of ref_env ref_Client "ref_world []"
      "\<lparr>Method = ''GET'', URL = ''https://api.emailsrvr.com/v1/domains'',
         Header = [(''User-Agent'', [''reago/1.0''])], Body = []\<rparr>"
      None "''GET''" "''v1/domains''" None
      "ref_GET ''https://api.emailsrvr.com/v1/domains''" ref_time]
  have f: "Year ref_time = 2019" "Month ref_time = 3" "Day ref_time = 9" "Hour ref_time = 8"
    "Minute ref_time = 7" "Second ref_time = 6"
    by (simp_all add: ref_time_def)
  from t n cal show ?thesis
    by (simp add: ref_env_sel ref_Client_sel ref_world_sel ref_stamp Header_Get_def Header_Values_def f)
qed

text \<open>
  Claim C8 (corrected). The \<^verbatim>\<open>Content-Type\<close> of a request built by \<^verbatim>\<open>NewRequest\<close> depends
  on the method alone: it is \<^verbatim>\<open>application/x-www-form-urlencoded\<close> exactly when
  the method is \<^verbatim>\<open>POST\<close>, with or without a body mapping, and \<^verbatim>\<open>application/json\<close> for every
  other method.
\<close>

theorem content_type_by_method:
  "NewRequest e c w ctx method urlStr body = Inr r \<longrightarrow>
     Header_Values ''Content-Type'' (Header r) =
       [if method = ''POST'' then ''application/x-www-form-urlencoded'' else ''application/json'']"
  using NewRequest_Header(1) [of e c w ctx "method" "urlStr" body r]
  by (simp add: mediaType_def)

theorem content_type_by_method_witness:
  "Header_Values ''Content-Type'' (Header (ref_GET ''https://api.emailsrvr.com/v1/domains'')) =
     [''application/json''] \<and>
   NewRequest ref_env ref_Client (ref_world []) None ''GET'' ''v1/domains'' None =
     Inr (ref_GET ''https://api.emailsrvr.com/v1/domains'') \<and>
   (case NewRequest ref_env ref_Client (ref_world []) None ''POST''
           ''v1/domains/foo.com/rs/aliases/bar'' (Some [(''aliasEmails'', ''foo@bar.com'')]) of
      Inl x \<Rightarrow> False
    | Inr r \<Rightarrow> Header_Values ''Content-Type'' (Header r) = [''application/x-www-form-urlencoded''] \<and>
               Body r = ''aliasEmails=foo%40bar.com'')"
proof -
  have n: "NewRequest ref_env ref_Client (ref_world []) None ''GET'' ''v1/domains'' None =
     Inr (ref_GET ''https://api.emailsrvr.com/v1/domains'')"
    by (rule domains_requests) (simp add: ref_world_sel)
  from content_type_by_method [THEN mp, OF n]
  have 1: "Header_Values ''Content-Type'' (Header (ref_GET ''https://api.emailsrvr.com/v1/domains'')) =
     [''application/json'']"
    by simp
  from content_type_by_method [THEN mp, OF post_requests(1)]
  have 2: "(case NewRequest ref_env ref_Client (ref_world []) None ''POST''
           ''v1/domains/foo.com/rs/aliases/bar'' (Some [(''aliasEmails'', ''foo@bar.com'')]) of
      Inl x \<Rightarrow> False
    | Inr r \<Rightarrow> Header_Values ''Content-Type'' (Header r) = [''application/x-www-form-urlencoded''] \<and>
               Body r = ''aliasEmails=foo%40bar.com'')"
    by (simp add: post_requests(1))
  from n 1 2 show ?thesis by blast
qed

text \<open>The claim as it was stated fails for \<^verbatim>\<open>POST\<close> without a body mapping.\<close>

theorem content_type_post_without_body_counterexample:
  "NewRequest ref_env ref_Client (ref_world []) None ''POST'' ''v1/domains/foo.com/rs/aliases/bar'' None =
     Inr \<lparr>Method = ''POST'', URL = ''https://api.emailsrvr.com/v1/domains/foo.com/rs/aliases/bar'',
          Header = [(''Content-Type'', [''application/x-www-form-urlencoded'']),
                    (''Accept'', [''application/json'']), (''User-Agent'', [''reago/1.0'']),
                    (''X-Api-Signature'',
                     [''key:20190309080706:base64(sha1(keyreago/1.020190309080706secret))''])],
          Body = []\<rparr>"
  by (simp add: post_requests(2) ref_GET_def)




section \<open>The error classifier\<close>

text \<open>
  Claim C3 (the code falls short of it). \<^verbatim>\<open>CheckResponse\<close> returns no error exactly for
  the status codes 200 to 299, and otherwise always an \<^verbatim>\<open>ErrorResponse\<close>, with the
  message and request id of the envelope, the raw body as message when the body is
  not JSON, and empty fields for an empty body (the lemmas above). But the error
  does not always carry the response: the field \<^verbatim>\<open>Response\<close> has no JSON tag, so the
  decoder stores a member named \<^verbatim>\<open>Response\<close> into it. For the status 500 with the body
  \<^verbatim>\<open>{"Response":null}\<close> the pointer is set to \<^verbatim>\<open>nil\<close>, and the error has neither status
  code nor request.
\<close>

theorem CheckResponse_Response_null:
  "CheckResponse ref_env server_error_Response_null =
     (Some \<lparr>Response = None, Message = [], RequestID = []\<rparr>, server_error_Response_null)"
proof -
  have "StatusCode server_error_Response_null = 500"
    "read_error (RespBody server_error_Response_null) = None"
    "content (RespBody server_error_Response_null) \<noteq> []"
    by (simp_all add: server_error_Response_null_def)
  with Response_null_parses show ?thesis
    by (simp add: CheckResponse_def Let_def deref_def Unmarshal_ErrorResponse_def store_member_def
        ErrorResponse_field_def store_Response_def ref_env_sel)
qed

end
